theory Spec2Isabelle
  imports Complex_Main
begin

section \<open>JavaScript values\<close>

text \<open>
  A value produced by \<^verbatim>\<open>JSON.parse\<close>. A number is a finite double, carried as the
  rational it denotes; an object is its list of properties. \<^verbatim>\<open>undefined\<close> is not a
  JSON value: a value that may be \<^verbatim>\<open>undefined\<close> has type \<open>jvalue option\<close>.
  A string is a \<open>char list\<close>, the bytes of its UTF-8 form, so that the ASCII literals
  of the handlers, equality, emptiness and concatenation are what they are in
  JavaScript; what depends on Unicode (white space, the case of letters) is left to
  the runtime below.
\<close>

datatype jvalue =
    JNull
  | JBool bool
  | JNum rat
  | JStr string
  | JArr "jvalue list"
  | JObj "(string \<times> jvalue) list"

text \<open>\<open>Error\<close> is what a collaborator (the store, the database client) throws.\<close>

datatype js_error = TypeError | SyntaxError | RangeError | Error

definition msPerDay :: int where
  "msPerDay = 86400000"

text \<open>
  The offset of local time from UTC in milliseconds. Every time zone is less than a
  day away from UTC; the type holds exactly these offsets.
\<close>

typedef offset = "{x :: int. - 86400000 < x \<and> x < 86400000}"
  morphisms ms_of offset_of
  by (rule exI [of _ 0]) simp

text \<open>
  The built-ins of the runtime that the handlers call and that are not modelled here:
  the JSON parser (\<open>None\<close> when it throws SyntaxError); the conversions between numbers
  and strings (\<open>None\<close> is NaN); \<^verbatim>\<open>Date.parse\<close> on a string (\<open>None\<close> is NaN); the string
  methods \<^verbatim>\<open>trim\<close>, \<^verbatim>\<open>toLowerCase\<close> and \<^verbatim>\<open>toUpperCase\<close>, which follow Unicode; and the
  local time zone: \<open>zone_offset rt t True\<close> is its offset at the UTC time \<open>t\<close>, and
  \<open>zone_offset rt t False\<close> its offset at the local time \<open>t\<close> (the offset before the
  change where a clock change skips or repeats \<open>t\<close>), which differ over the year where
  daylight saving is observed.
\<close>

record runtime =
  JSON_parse :: "string \<Rightarrow> jvalue option"
  Number_toString :: "rat \<Rightarrow> string"
  StringToNumber :: "string \<Rightarrow> rat option"
  Date_parse :: "string \<Rightarrow> int option"
  trim :: "string \<Rightarrow> string"
  toLowerCase :: "string \<Rightarrow> string"
  toUpperCase :: "string \<Rightarrow> string"
  zone_offset :: "int \<Rightarrow> bool \<Rightarrow> offset"

text \<open>ToBoolean: \<^verbatim>\<open>null\<close>, \<^verbatim>\<open>false\<close>, \<^verbatim>\<open>0\<close> and \<^verbatim>\<open>""\<close> are falsy, as is \<^verbatim>\<open>undefined\<close>.\<close>

fun truthy :: "jvalue \<Rightarrow> bool" where
  "truthy JNull = False"
| "truthy (JBool b) = b"
| "truthy (JNum n) = (n \<noteq> 0)"
| "truthy (JStr s) = (s \<noteq> [])"
| "truthy (JArr xs) = True"
| "truthy (JObj kvs) = True"

definition truthy_opt :: "jvalue option \<Rightarrow> bool" where
  "truthy_opt v = (case v of None \<Rightarrow> False | Some x \<Rightarrow> truthy x)"

text \<open>\<^verbatim>\<open>v || d\<close> for a possibly undefined \<open>v\<close> and a JSON default \<open>d\<close>.\<close>

definition or_json :: "jvalue option \<Rightarrow> jvalue \<Rightarrow> jvalue" where
  "or_json v d = (case v of None \<Rightarrow> d | Some x \<Rightarrow> if truthy x then x else d)"

text \<open>The same for values known to be strings or undefined (headers, body, env).\<close>

definition truthy_str :: "string option \<Rightarrow> bool" where
  "truthy_str v = (case v of None \<Rightarrow> False | Some s \<Rightarrow> s \<noteq> [])"

definition or_str :: "string option \<Rightarrow> string option \<Rightarrow> string option" where
  "or_str a b = (if truthy_str a then a else b)"

text \<open>
  Property read \<^verbatim>\<open>v.k\<close> for the property names the handlers use (none of them is
  inherited from a prototype): TypeError on \<^verbatim>\<open>null\<close>, the own property of an object,
  \<^verbatim>\<open>undefined\<close> on every other value.
\<close>

fun get_prop :: "jvalue \<Rightarrow> string \<Rightarrow> js_error + jvalue option" where
  "get_prop JNull k = Inl TypeError"
| "get_prop (JObj kvs) k = Inr (map_of kvs k)"
| "get_prop v k = Inr None"

text \<open>Property read on a value that may be \<^verbatim>\<open>undefined\<close>, where it throws as on \<^verbatim>\<open>null\<close>.\<close>

definition get_prop_opt :: "jvalue option \<Rightarrow> string \<Rightarrow> js_error + jvalue option" where
  "get_prop_opt v k = (case v of None \<Rightarrow> Inl TypeError | Some x \<Rightarrow> get_prop x k)"

text \<open>
  A call of a \<^verbatim>\<open>String.prototype\<close> method on a value: a number, a boolean, an array
  or an object read from JSON has no such method, and the call throws TypeError.
\<close>

fun str_method :: "(string \<Rightarrow> string) \<Rightarrow> jvalue \<Rightarrow> js_error + string" where
  "str_method f (JStr s) = Inr (f s)"
| "str_method f v = Inl TypeError"

fun join_comma :: "string list \<Rightarrow> string" where
  "join_comma [] = []"
| "join_comma [s] = s"
| "join_comma (s # t # ss) = s @ '','' @ join_comma (t # ss)"

text \<open>The results of a list of conversions, or the first error among them.\<close>

fun sequence :: "(js_error + 'a) list \<Rightarrow> js_error + 'a list" where
  "sequence [] = Inr []"
| "sequence (Inl e # ms) = Inl e"
| "sequence (Inr x # ms) = (case sequence ms of Inl e \<Rightarrow> Inl e | Inr xs \<Rightarrow> Inr (x # xs))"

text \<open>
  \<^verbatim>\<open>String(v)\<close>. An array joins the strings of its elements with commas, \<^verbatim>\<open>null\<close>
  elements as \<^verbatim>\<open>""\<close>. An object is \<^verbatim>\<open>[object Object]\<close> by the \<^verbatim>\<open>toString\<close> it inherits;
  an own property \<^verbatim>\<open>toString\<close> hides that method, and since no JSON value is a
  function the conversion then throws TypeError.
\<close>

fun to_String :: "runtime \<Rightarrow> jvalue \<Rightarrow> js_error + string" where
  "to_String rt JNull = Inr ''null''"
| "to_String rt (JBool b) = Inr (if b then ''true'' else ''false'')"
| "to_String rt (JNum n) = Inr (Number_toString rt n)"
| "to_String rt (JStr s) = Inr s"
| "to_String rt (JArr xs) =
     (case sequence (map (\<lambda>x. if x = JNull then Inr [] else to_String rt x) xs) of
        Inl e \<Rightarrow> Inl e
      | Inr ss \<Rightarrow> Inr (join_comma ss))"
| "to_String rt (JObj kvs) =
     (if map_of kvs ''toString'' = None then Inr ''[object Object]'' else Inl TypeError)"

definition to_String_opt :: "runtime \<Rightarrow> jvalue option \<Rightarrow> js_error + string" where
  "to_String_opt rt v = (case v of None \<Rightarrow> Inr ''undefined'' | Some x \<Rightarrow> to_String rt x)"

text \<open>
  \<^verbatim>\<open>Number(v)\<close>; \<open>None\<close> is NaN. An array or object converts through its string, and
  throws where that does.
\<close>

fun to_Number :: "runtime \<Rightarrow> jvalue \<Rightarrow> js_error + rat option" where
  "to_Number rt JNull = Inr (Some 0)"
| "to_Number rt (JBool b) = Inr (Some (if b then 1 else 0))"
| "to_Number rt (JNum n) = Inr (Some n)"
| "to_Number rt (JStr s) = Inr (StringToNumber rt s)"
| "to_Number rt v =
     (case to_String rt v of Inl e \<Rightarrow> Inl e | Inr s \<Rightarrow> Inr (StringToNumber rt s))"

section \<open>Dates (ECMA-262, Time Values and Time Range)\<close>

definition Day :: "int \<Rightarrow> int" where
  "Day t = t div msPerDay"

definition TimeWithinDay :: "int \<Rightarrow> int" where
  "TimeWithinDay t = t mod msPerDay"

definition DaysInYear :: "int \<Rightarrow> int" where
  "DaysInYear y =
     (if y mod 4 \<noteq> 0 then 365
      else if y mod 100 \<noteq> 0 then 366
      else if y mod 400 \<noteq> 0 then 365
      else 366)"

definition DayFromYear :: "int \<Rightarrow> int" where
  "DayFromYear y =
     365 * (y - 1970) + (y - 1969) div 4 - (y - 1901) div 100 + (y - 1601) div 400"

definition TimeFromYear :: "int \<Rightarrow> int" where
  "TimeFromYear y = msPerDay * DayFromYear y"

text \<open>
  YearFromTime is the largest \<open>y\<close> with \<open>TimeFromYear y \<le> t\<close>: a search upwards from
  a year that is not after it.
\<close>

function year_search :: "int \<Rightarrow> int \<Rightarrow> int" where
  "year_search y d = (if DayFromYear (y + 1) \<le> d then year_search (y + 1) d else y)"
  by pat_completeness auto


lemma int_div_step:
  fixes a n :: int
  assumes "0 < n"
  shows "(a + 1) div n = a div n + (if (a + 1) mod n = 0 then 1 else 0)"
proof (cases "(a + 1) mod n = 0")
  case True
  then obtain k where k: "a + 1 = n * k"
    by (auto simp: mod_eq_0_iff_dvd)
  have "a = n * (k - 1) + (n - 1)"
    using k by (simp add: algebra_simps)
  then have "a div n = (n * (k - 1) + (n - 1)) div n"
    by simp
  also have "\<dots> = k - 1 + (n - 1) div n"
    using assms by simp
  also have "(n - 1) div n = 0"
    using assms by (intro div_pos_pos_trivial) linarith+
  finally show ?thesis
    using True k assms by simp
next
  case False
  have e: "a + 1 = n * ((a + 1) div n) + (a + 1) mod n"
    by simp
  have b: "0 < (a + 1) mod n" "(a + 1) mod n < n"
    using False assms pos_mod_sign [of n "a + 1"] pos_mod_bound [of n "a + 1"]
    by linarith+
  have "a = n * ((a + 1) div n) + ((a + 1) mod n - 1)"
    using e by linarith
  then have "a div n = (n * ((a + 1) div n) + ((a + 1) mod n - 1)) div n"
    by simp
  also have "\<dots> = (a + 1) div n + ((a + 1) mod n - 1) div n"
    using assms by simp
  also have "((a + 1) mod n - 1) div n = 0"
    using b by (intro div_pos_pos_trivial) linarith+
  finally show ?thesis
    using False by simp
qed

lemma DayFromYear_step: "DayFromYear (y + 1) = DayFromYear y + DaysInYear y"
proof -
  have m4: "(y - 1968) mod 4 = y mod 4"
    using mod_mult_self1 [of y "- 492" 4] by simp
  have m100: "(y - 1900) mod 100 = y mod 100"
    using mod_mult_self1 [of y "- 19" 100] by simp
  have m400: "(y - 1600) mod 400 = y mod 400"
    using mod_mult_self1 [of y "- 4" 400] by simp
  have c1: "y mod 400 = 0 \<Longrightarrow> y mod 100 = 0"
    using mod_mod_cancel [of 100 400 y] by simp
  have c2: "y mod 100 = 0 \<Longrightarrow> y mod 4 = 0"
    using mod_mod_cancel [of 4 100 y] by simp
  have d4: "(y - 1968) div 4 = (y - 1969) div 4 + (if y mod 4 = 0 then 1 else 0)"
    using int_div_step [of 4 "y - 1969"] m4 by simp
  have d100: "(y - 1900) div 100 = (y - 1901) div 100 + (if y mod 100 = 0 then 1 else 0)"
    using int_div_step [of 100 "y - 1901"] m100 by simp
  have d400: "(y - 1600) div 400 = (y - 1601) div 400 + (if y mod 400 = 0 then 1 else 0)"
    using int_div_step [of 400 "y - 1601"] m400 by simp
  have e: "DayFromYear (y + 1) =
      365 * (y - 1969) + (y - 1968) div 4 - (y - 1900) div 100 + (y - 1600) div 400"
    by (simp add: DayFromYear_def)
  define l4 :: int where "l4 = (if y mod 4 = 0 then 1 else 0)"
  define l100 :: int where "l100 = (if y mod 100 = 0 then 1 else 0)"
  define l400 :: int where "l400 = (if y mod 400 = 0 then 1 else 0)"
  have lin: "a' = a + l4 \<Longrightarrow> b' = b + l100 \<Longrightarrow> c' = c + l400 \<Longrightarrow>
      365 * (y - 1969) + a' - b' + c' =
      365 * (y - 1970) + a - b + c + (365 + l4 - l100 + l400)" for a a' b b' c c' :: int
    by simp
  have "DayFromYear (y + 1) = DayFromYear y + (365 + l4 - l100 + l400)"
    unfolding e unfolding DayFromYear_def
    by (rule lin) (simp_all only: d4 d100 d400 l4_def l100_def l400_def)
  moreover have "DaysInYear y = 365 + l4 - l100 + l400"
    using c1 c2 unfolding DaysInYear_def l4_def l100_def l400_def
    by (cases "y mod 4 = 0"; cases "y mod 100 = 0"; cases "y mod 400 = 0") simp_all
  ultimately show ?thesis
    by simp
qed

lemma DaysInYear_ge: "365 \<le> DaysInYear y"
  by (simp add: DaysInYear_def)

termination year_search
proof (relation "measure (\<lambda>(y, d). nat (d + 1 - DayFromYear (y + 1)))")
  show "wf (measure (\<lambda>(y, d). nat (d + 1 - DayFromYear (y + 1))))"
    by simp
next
  fix y d :: int
  assume le: "DayFromYear (y + 1) \<le> d"
  have "DayFromYear ((y + 1) + 1) = DayFromYear (y + 1) + DaysInYear (y + 1)"
    by (rule DayFromYear_step)
  moreover have "365 \<le> DaysInYear (y + 1)"
    by (rule DaysInYear_ge)
  ultimately have "d + 1 - DayFromYear (y + 1 + 1) < d + 1 - DayFromYear (y + 1)"
    by linarith
  moreover have "0 < d + 1 - DayFromYear (y + 1)"
    using le by linarith
  ultimately show
    "((y + 1, d), (y, d)) \<in> measure (\<lambda>(y, d). nat (d + 1 - DayFromYear (y + 1)))"
    by simp
qed

declare year_search.simps [simp del]

definition YearFromDay :: "int \<Rightarrow> int" where
  "YearFromDay d =
     year_search (if 0 \<le> d then 1970 + d div 366 else 1970 + d div 365) d"

definition YearFromTime :: "int \<Rightarrow> int" where
  "YearFromTime t = YearFromDay (Day t)"

definition InLeapYear :: "int \<Rightarrow> int" where
  "InLeapYear t = (if DaysInYear (YearFromTime t) = 366 then 1 else 0)"

definition DayWithinYear :: "int \<Rightarrow> int" where
  "DayWithinYear t = Day t - DayFromYear (YearFromTime t)"

definition MonthFromTime :: "int \<Rightarrow> int" where
  "MonthFromTime t =
     (let d = DayWithinYear t; l = InLeapYear t in
      if d < 31 then 0
      else if d < 59 + l then 1
      else if d < 90 + l then 2
      else if d < 120 + l then 3
      else if d < 151 + l then 4
      else if d < 181 + l then 5
      else if d < 212 + l then 6
      else if d < 243 + l then 7
      else if d < 273 + l then 8
      else if d < 304 + l then 9
      else if d < 334 + l then 10
      else 11)"

definition DateFromTime :: "int \<Rightarrow> int" where
  "DateFromTime t =
     (let d = DayWithinYear t; l = InLeapYear t; m = MonthFromTime t in
      if m = 0 then d + 1
      else if m = 1 then d - 30
      else if m = 2 then d - 58 - l
      else if m = 3 then d - 89 - l
      else if m = 4 then d - 119 - l
      else if m = 5 then d - 150 - l
      else if m = 6 then d - 180 - l
      else if m = 7 then d - 211 - l
      else if m = 8 then d - 242 - l
      else if m = 9 then d - 272 - l
      else if m = 10 then d - 303 - l
      else d - 333 - l)"

definition HourFromTime :: "int \<Rightarrow> int" where
  "HourFromTime t = (t div 3600000) mod 24"

definition MinFromTime :: "int \<Rightarrow> int" where
  "MinFromTime t = (t div 60000) mod 60"

definition SecFromTime :: "int \<Rightarrow> int" where
  "SecFromTime t = (t div 1000) mod 60"

definition msFromTime :: "int \<Rightarrow> int" where
  "msFromTime t = t mod 1000"

text \<open>
  The day number of the first day of month \<open>m\<close> (0 to 11) within a year, \<open>l\<close> being
  1 in a leap year: the bounds of the table of MonthFromTime.
\<close>

definition month_start :: "int \<Rightarrow> int \<Rightarrow> int" where
  "month_start l m =
     (if m = 0 then 0
      else if m = 1 then 31
      else if m = 2 then 59 + l
      else if m = 3 then 90 + l
      else if m = 4 then 120 + l
      else if m = 5 then 151 + l
      else if m = 6 then 181 + l
      else if m = 7 then 212 + l
      else if m = 8 then 243 + l
      else if m = 9 then 273 + l
      else if m = 10 then 304 + l
      else 334 + l)"

text \<open>
  MakeDay: the day number of the first day of month \<open>month mod 12\<close> of year
  \<open>year + month div 12\<close>, plus \<open>date - 1\<close>.
\<close>

definition MakeDay :: "int \<Rightarrow> int \<Rightarrow> int \<Rightarrow> int" where
  "MakeDay year month date =
     (let ym = year + month div 12; mn = month mod 12 in
      DayFromYear ym + month_start (if DaysInYear ym = 366 then 1 else 0) mn + date - 1)"

definition MakeDate :: "int \<Rightarrow> int \<Rightarrow> int" where
  "MakeDate day time = day * msPerDay + time"

text \<open>TimeClip: a time value beyond 8.64e15 ms from the epoch is NaN (\<open>None\<close>).\<close>

definition TimeClip :: "int \<Rightarrow> int option" where
  "TimeClip t = (if \<bar>t\<bar> > 8640000000000000 then None else Some t)"

text \<open>
  LocalTZA, and the conversions between UTC and local time: \<open>LocalTime rt t\<close> is
  \<open>t + LocalTZA(t, true)\<close> and \<open>UTC rt t\<close> is \<open>t - LocalTZA(t, false)\<close>.
\<close>

definition LocalTZA :: "runtime \<Rightarrow> int \<Rightarrow> bool \<Rightarrow> int" where
  "LocalTZA rt t isUTC = ms_of (zone_offset rt t isUTC)"

definition LocalTime :: "runtime \<Rightarrow> int \<Rightarrow> int" where
  "LocalTime rt t = t + LocalTZA rt t True"

definition UTC :: "runtime \<Rightarrow> int \<Rightarrow> int" where
  "UTC rt t = t - LocalTZA rt t False"

text \<open>The methods of a Date whose time value \<open>t\<close> is valid.\<close>

definition getMonth :: "runtime \<Rightarrow> int \<Rightarrow> int" where
  "getMonth rt t = MonthFromTime (LocalTime rt t)"

definition getFullYear :: "runtime \<Rightarrow> int \<Rightarrow> int" where
  "getFullYear rt t = YearFromTime (LocalTime rt t)"

definition setMonth :: "runtime \<Rightarrow> int \<Rightarrow> int \<Rightarrow> int option" where
  "setMonth rt t0 month =
     (let t = LocalTime rt t0;
          newDate = MakeDate (MakeDay (YearFromTime t) month (DateFromTime t)) (TimeWithinDay t)
      in TimeClip (UTC rt newDate))"

definition setFullYear :: "runtime \<Rightarrow> int \<Rightarrow> int \<Rightarrow> int option" where
  "setFullYear rt t0 year =
     (let t = LocalTime rt t0;
          newDate = MakeDate (MakeDay year (MonthFromTime t) (DateFromTime t)) (TimeWithinDay t)
      in TimeClip (UTC rt newDate))"

definition digit_char :: "nat \<Rightarrow> char" where
  "digit_char d = char_of (48 + d)"

definition pad :: "nat \<Rightarrow> int \<Rightarrow> string" where
  "pad w n = map (\<lambda>i. digit_char ((nat n div 10 ^ i) mod 10)) (rev [0..<w])"

text \<open>
  \<^verbatim>\<open>toISOString\<close>: the UTC fields as \<^verbatim>\<open>YYYY-MM-DDTHH:mm:ss.sssZ\<close>, a year outside
  0 to 9999 as a sign and six digits. An invalid date throws RangeError.
\<close>

definition iso_year :: "int \<Rightarrow> string" where
  "iso_year y =
     (if 0 \<le> y \<and> y \<le> 9999 then pad 4 y
      else if y < 0 then ''-'' @ pad 6 (- y)
      else ''+'' @ pad 6 y)"

definition iso_string :: "int \<Rightarrow> string" where
  "iso_string t =
     iso_year (YearFromTime t) @ ''-'' @ pad 2 (MonthFromTime t + 1) @ ''-'' @
     pad 2 (DateFromTime t) @ ''T'' @ pad 2 (HourFromTime t) @ '':'' @
     pad 2 (MinFromTime t) @ '':'' @ pad 2 (SecFromTime t) @ ''.'' @
     pad 3 (msFromTime t) @ ''Z''"

definition toISOString :: "int option \<Rightarrow> js_error + string" where
  "toISOString d = (case d of None \<Rightarrow> Inl RangeError | Some t \<Rightarrow> Inr (iso_string t))"

section \<open>Calendar dates\<close>

text \<open>
  The date of a time value as year, month (0 to 11) and day of the month, and the
  rollover of \<^verbatim>\<open>Date\<close>: a day that its month does not have counts on into the next
  month. One month later is the same day of the next month, one year later the same
  day and month of the next year, both rolled over.
\<close>

definition DaysInMonth :: "int \<Rightarrow> int \<Rightarrow> int" where
  "DaysInMonth y m =
     (if m = 1 then (if DaysInYear y = 366 then 29 else 28)
      else if m = 3 \<or> m = 5 \<or> m = 8 \<or> m = 10 then 30
      else 31)"

definition ymd :: "int \<Rightarrow> int \<times> int \<times> int" where
  "ymd t = (YearFromTime t, MonthFromTime t, DateFromTime t)"

definition roll_over :: "int \<times> int \<times> int \<Rightarrow> int \<times> int \<times> int" where
  "roll_over = (\<lambda>(y, m, d).
     if d \<le> DaysInMonth y m then (y, m, d)
     else if m = 11 then (y + 1, 0, d - DaysInMonth y m)
     else (y, m + 1, d - DaysInMonth y m))"

definition plus_one_month :: "int \<times> int \<times> int \<Rightarrow> int \<times> int \<times> int" where
  "plus_one_month = (\<lambda>(y, m, d). roll_over (if m = 11 then (y + 1, 0, d) else (y, m + 1, d)))"

definition plus_one_year :: "int \<times> int \<times> int \<Rightarrow> int \<times> int \<times> int" where
  "plus_one_year = (\<lambda>(y, m, d). roll_over (y + 1, m, d))"

section \<open>Requests, responses and effects\<close>

text \<open>
  The event a handler receives. \<open>params\<close> is the query string as
  \<^verbatim>\<open>URLSearchParams\<close> presents it: \<open>params ev k\<close> is \<^verbatim>\<open>params.get(k)\<close>, \<open>None\<close> for
  \<^verbatim>\<open>null\<close>. A missing header or body is \<open>None\<close>.
\<close>

record event =
  httpMethod :: string
  headers :: "string \<rightharpoonup> string"
  body :: "string option"
  params :: "string \<rightharpoonup> string"

record env =
  HELIO_WEBHOOK_SECRET :: "string option"
  SUPABASE_URL :: "string option"
  SUPABASE_SERVICE_ROLE :: "string option"

text \<open>A response body is a literal text or \<^verbatim>\<open>JSON.stringify\<close> of a value.\<close>

datatype body_text = Text string | JSON_stringify jvalue

record response =
  statusCode :: nat
  resp_headers :: "(string \<times> string) list"
  resp_body :: body_text

definition plain :: "nat \<Rightarrow> string \<Rightarrow> response" where
  "plain status text = \<lparr>statusCode = status, resp_headers = [], resp_body = Text text\<rparr>"

text \<open>
  The object literal handed to \<open>json\<close> is a list of properties whose value may be
  \<^verbatim>\<open>undefined\<close>; \<^verbatim>\<open>JSON.stringify\<close> leaves those properties out.
\<close>

definition defined_props :: "(string \<times> jvalue option) list \<Rightarrow> (string \<times> jvalue) list" where
  "defined_props data = List.map_filter (\<lambda>(k, v). map_option (Pair k) v) data"

definition json :: "nat \<Rightarrow> (string \<times> jvalue option) list \<Rightarrow> response" where
  "json status data =
     \<lparr>statusCode = status,
      resp_headers = [(''Content-Type'', ''application/json'')],
      resp_body = JSON_stringify (JObj (defined_props data))\<rparr>"

text \<open>
  The calls a handler makes on the Blobs store \<^verbatim>\<open>members\<close> and on the Supabase client,
  in order and with their arguments. A call is recorded when the handler makes it,
  whether it then succeeds, fails or throws: what comes of it is the collaborator's
  answer below.
\<close>

datatype effect =
    setJSON string jvalue
  | getJSON string
  | rpc_ensure_user jvalue jvalue
  | insert_subscription jvalue

text \<open>
  What \<^verbatim>\<open>@netlify/blobs\<close> answers: \<^verbatim>\<open>getStore\<close> returns the store or throws (outside of a
  configured environment), and \<^verbatim>\<open>store.setJSON(key, value)\<close> resolves or rejects.
\<close>

record blobs =
  getStore_result :: "js_error + unit"
  setJSON_result :: "string \<Rightarrow> jvalue \<Rightarrow> js_error + unit"

text \<open>The content of the store: the value under each key.\<close>

type_synonym store = "string \<rightharpoonup> jvalue"

text \<open>
  \<^verbatim>\<open>store.getJSON(key)\<close>. The store that \<^verbatim>\<open>getStore\<close> returns reads with the methods
  \<^verbatim>\<open>get\<close> and \<^verbatim>\<open>getWithMetadata\<close> and writes with \<^verbatim>\<open>set\<close> and \<^verbatim>\<open>setJSON\<close>; it has no
  property \<^verbatim>\<open>getJSON\<close>. The callee is \<^verbatim>\<open>undefined\<close> and the call throws TypeError,
  whatever the store holds; nothing is read.
\<close>

definition store_getJSON :: "store \<Rightarrow> string \<Rightarrow> js_error + jvalue option" where
  "store_getJSON st key = Inl TypeError"

text \<open>
  What \<^verbatim>\<open>@supabase/supabase-js\<close> answers: \<^verbatim>\<open>createClient\<close> returns the client or throws
  (on a URL it does not accept); an awaited call rejects, or resolves to
  \<^verbatim>\<open>{ data, error }\<close>, here the pair \<open>(data, error)\<close>, \<^verbatim>\<open>null\<close> for the one that is absent.
\<close>

record supabase =
  createClient_result :: "string option \<Rightarrow> string option \<Rightarrow> js_error + unit"
  rpc_result :: "jvalue \<Rightarrow> jvalue \<Rightarrow> js_error + jvalue \<times> jvalue"
  insert_result :: "jvalue \<Rightarrow> js_error + jvalue \<times> jvalue"

definition body_or_empty_object :: "event \<Rightarrow> string" where
  "body_or_empty_object ev = (case body ev of None \<Rightarrow> ''{}'' | Some s \<Rightarrow> if s = [] then ''{}'' else s)"

definition str_or_null :: "string \<Rightarrow> jvalue" where
  "str_or_null s = (if s = [] then JNull else JStr s)"

text \<open>
  A handler can throw after it has called a collaborator, so what is thrown carries
  the calls made so far: \<open>raise_after es m f\<close> continues with the value of \<open>m\<close>, or
  throws its error after the calls \<open>es\<close>; \<open>and_then\<close> is the case of no call so far.
  The \<^verbatim>\<open>catch\<close> of every handler answers a bare 500, whatever was thrown.
\<close>

type_synonym outcome = "js_error \<times> effect list + response \<times> effect list"

definition raise_after :: "effect list \<Rightarrow> js_error + 'a \<Rightarrow> ('a \<Rightarrow> outcome) \<Rightarrow> outcome" where
  "raise_after es m f = (case m of Inl e \<Rightarrow> Inl (e, es) | Inr x \<Rightarrow> f x)"

definition and_then :: "js_error + 'a \<Rightarrow> ('a \<Rightarrow> outcome) \<Rightarrow> outcome" where
  "and_then m f = raise_after [] m f"

definition catch500 :: "outcome \<Rightarrow> response \<times> effect list" where
  "catch500 m =
     (case m of
        Inl (err, es) \<Rightarrow> (plain 500 ''Internal Server Error'', es)
      | Inr r \<Rightarrow> r)"

text \<open>
  The expiry, computed alike by the Blobs and the Supabase variant: a copy of \<open>now\<close>,
  \<^verbatim>\<open>if (plan === "monthly") expires.setMonth(expires.getMonth() + 1)\<close>, then
  \<^verbatim>\<open>if (plan === "yearly") expires.setFullYear(expires.getFullYear() + 1)\<close>.
  \<open>None\<close> is an invalid Date.
\<close>

definition compute_expiry :: "runtime \<Rightarrow> string \<Rightarrow> int \<Rightarrow> int option" where
  "compute_expiry rt plan now =
     (let expires_m = (if plan = ''monthly'' then setMonth rt now (getMonth rt now + 1)
                       else Some now)
      in if plan = ''yearly''
         then (case expires_m of None \<Rightarrow> None
               | Some t \<Rightarrow> setFullYear rt t (getFullYear rt t + 1))
         else expires_m)"

section \<open>payment-webhook.js, the Blobs variant\<close>

definition payment_webhook_blobs_try ::
  "runtime \<Rightarrow> env \<Rightarrow> blobs \<Rightarrow> int \<Rightarrow> event \<Rightarrow> outcome" where
  "payment_webhook_blobs_try rt en bl now ev =
    (if httpMethod ev \<noteq> ''POST'' then Inr (plain 405 ''Method Not Allowed'', [])
     else
       let secret = HELIO_WEBHOOK_SECRET en;
           signature = or_str (headers ev ''x-helio-signature'') (headers ev ''X-Helio-Signature'')
       in
       if \<not> truthy_str secret then Inr (plain 500 ''Server misconfigured'', [])
       else if \<not> truthy_str signature \<or> signature \<noteq> secret then Inr (plain 401 ''Unauthorized'', [])
       else
         case JSON_parse rt (body_or_empty_object ev) of
           None \<Rightarrow> Inl (SyntaxError, [])
         | Some payload \<Rightarrow>
         and_then (get_prop payload ''event'') (\<lambda>event_type.
         if event_type \<noteq> Some (JStr ''payment_succeeded'')
         then Inr (json 200 [(''ok'', Some (JBool True)), (''ignored'', Some (JBool True))], [])
         else
         and_then (get_prop payload ''plan'') (\<lambda>plan_v.
         and_then (to_String rt (or_json plan_v (JStr ''''))) (\<lambda>plan_s.
         let plan = toLowerCase rt plan_s in
         and_then (get_prop payload ''email'') (\<lambda>email_v.
         and_then (str_method (\<lambda>s. toLowerCase rt (trim rt s)) (or_json email_v (JStr ''''))) (\<lambda>email.
         and_then (get_prop payload ''wallet'') (\<lambda>wallet_v.
         and_then (str_method (trim rt) (or_json wallet_v (JStr ''''))) (\<lambda>wallet.
         if plan \<notin> set [''monthly'', ''yearly'']
         then Inr (json 400 [(''ok'', Some (JBool False)), (''error'', Some (JStr ''Invalid plan''))], [])
         else if email = [] \<and> wallet = []
         then Inr (json 400 [(''ok'', Some (JBool False)),
                             (''error'', Some (JStr ''Email or wallet required''))], [])
         else
         and_then (toISOString (Some now)) (\<lambda>startISO.
         let expires = compute_expiry rt plan now in
         and_then (toISOString expires) (\<lambda>expiryISO.
         and_then (get_prop payload ''amount'') (\<lambda>amount_v.
         and_then (get_prop payload ''currency'') (\<lambda>currency_v.
         and_then (get_prop payload ''txHash'') (\<lambda>txHash_v.
         let member = JObj
               [(''email'', str_or_null email),
                (''wallet'', str_or_null wallet),
                (''plan'', JStr plan),
                (''amount'', or_json amount_v JNull),
                (''currency'', or_json currency_v JNull),
                (''txHash'', or_json txHash_v JNull),
                (''started_at'', JStr startISO),
                (''expires_at'', JStr expiryISO),
                (''provider'', JStr ''helio''),
                (''status'', JStr ''active'')]
         in
         and_then (getStore_result bl) (\<lambda>store.
         let key = (if email \<noteq> [] then ''email:'' @ email
                    else ''wallet:'' @ toLowerCase rt wallet)
         in
         raise_after [setJSON key member] (setJSON_result bl key member) (\<lambda>written.
         Inr (json 200 [(''ok'', Some (JBool True)), (''saved'', Some (JBool True)),
                        (''key'', Some (JStr key)), (''expires_at'', Some (JStr expiryISO))],
              [setJSON key member]))))))))))))))))"

definition payment_webhook_blobs ::
  "runtime \<Rightarrow> env \<Rightarrow> blobs \<Rightarrow> int \<Rightarrow> event \<Rightarrow> response \<times> effect list" where
  "payment_webhook_blobs rt en bl now ev = catch500 (payment_webhook_blobs_try rt en bl now ev)"

section \<open>get-membership.js\<close>

definition get_membership_try ::
  "runtime \<Rightarrow> blobs \<Rightarrow> store \<Rightarrow> int \<Rightarrow> event \<Rightarrow> outcome" where
  "get_membership_try rt bl st now ev =
    (if httpMethod ev \<noteq> ''GET'' then Inr (plain 405 ''Method Not Allowed'', [])
     else
       let email = toLowerCase rt (trim rt (case params ev ''email'' of None \<Rightarrow> [] | Some s \<Rightarrow> s));
           wallet = trim rt (case params ev ''wallet'' of None \<Rightarrow> [] | Some s \<Rightarrow> s)
       in
       if email = [] \<and> wallet = []
       then Inr (json 400 [(''ok'', Some (JBool False)), (''active'', Some (JBool False)),
                           (''reason'', Some (JStr ''missing_param''))], [])
       else
         and_then (getStore_result bl) (\<lambda>store.
         let key = (if email \<noteq> [] then ''email:'' @ email
                    else ''wallet:'' @ toLowerCase rt wallet)
         in
         raise_after [getJSON key] (store_getJSON st key) (\<lambda>record.
         if \<not> truthy_opt record
         then Inr (json 200 [(''ok'', Some (JBool True)), (''active'', Some (JBool False)),
                             (''reason'', Some (JStr ''not_found''))], [getJSON key])
         else
           raise_after [getJSON key] (get_prop_opt record ''expires_at'') (\<lambda>expires_at.
           raise_after [getJSON key] (to_String_opt rt expires_at) (\<lambda>expires_s.
           let expiry = Date_parse rt expires_s;
               active = (case expiry of None \<Rightarrow> False | Some e \<Rightarrow> e > now)
           in
           Inr (json 200 [(''ok'', Some (JBool True)),
                          (''active'', Some (JBool active)),
                          (''record'', if active then record else None),
                          (''reason'', if active then None else Some (JStr ''expired''))],
                [getJSON key]))))))"

definition get_membership ::
  "runtime \<Rightarrow> blobs \<Rightarrow> store \<Rightarrow> int \<Rightarrow> event \<Rightarrow> response \<times> effect list" where
  "get_membership rt bl st now ev = catch500 (get_membership_try rt bl st now ev)"

section \<open>payment-webhook.js, the Supabase variant\<close>

text \<open>
  The row handed to \<^verbatim>\<open>insert\<close> is the JSON that is sent: a NaN \<open>amount\<close> is
  \<^verbatim>\<open>null\<close> there.
\<close>

definition num_or_null :: "rat option \<Rightarrow> jvalue" where
  "num_or_null n = (case n of None \<Rightarrow> JNull | Some x \<Rightarrow> JNum x)"

definition payment_webhook_supabase_try ::
  "runtime \<Rightarrow> env \<Rightarrow> supabase \<Rightarrow> int \<Rightarrow> event \<Rightarrow> outcome" where
  "payment_webhook_supabase_try rt en sb now ev =
    (if httpMethod ev \<noteq> ''POST'' then Inr (plain 405 ''Method Not Allowed'', [])
     else
       let expected = HELIO_WEBHOOK_SECRET en;
           signature = or_str (headers ev ''x-helio-signature'') (headers ev ''X-Helio-Signature'')
       in
       if \<not> truthy_str expected
       then Inr (json 500 [(''ok'', Some (JBool False)),
                           (''error'', Some (JStr ''Missing HELIO_WEBHOOK_SECRET''))], [])
       else if \<not> truthy_str signature \<or> signature \<noteq> expected
       then Inr (json 401 [(''ok'', Some (JBool False)), (''error'', Some (JStr ''Unauthorized''))], [])
       else
         case JSON_parse rt (body_or_empty_object ev) of
           None \<Rightarrow> Inl (SyntaxError, [])
         | Some payload \<Rightarrow>
         raise_after [] (get_prop payload ''event'') (\<lambda>event_type.
         if event_type \<noteq> Some (JStr ''payment_succeeded'')
         then Inr (json 200 [(''ok'', Some (JBool True)), (''ignored'', Some (JBool True))], [])
         else
         raise_after [] (get_prop payload ''plan'') (\<lambda>plan_v.
         raise_after [] (to_String rt (or_json plan_v (JStr ''''))) (\<lambda>plan_s.
         let plan = toLowerCase rt plan_s in
         raise_after [] (get_prop payload ''email'') (\<lambda>email_v.
         raise_after [] (str_method (\<lambda>s. toLowerCase rt (trim rt s)) (or_json email_v (JStr ''''))) (\<lambda>email_s.
         let email = str_or_null email_s in
         raise_after [] (get_prop payload ''wallet'') (\<lambda>wallet_v.
         raise_after [] (str_method (trim rt) (or_json wallet_v (JStr ''''))) (\<lambda>wallet_s.
         let wallet = str_or_null wallet_s in
         raise_after [] (get_prop payload ''amount'') (\<lambda>amount_v.
         raise_after [] (to_Number rt (or_json amount_v (JNum 0))) (\<lambda>amount.
         raise_after [] (get_prop payload ''currency'') (\<lambda>currency_v.
         raise_after [] (str_method (toUpperCase rt) (or_json currency_v (JStr ''USDT''))) (\<lambda>currency.
         raise_after [] (get_prop payload ''txHash'') (\<lambda>txHash_v.
         let txHash = or_json txHash_v JNull in
         if plan \<notin> set [''monthly'', ''yearly'']
         then Inr (json 400 [(''ok'', Some (JBool False)), (''error'', Some (JStr ''Invalid plan''))], [])
         else if \<not> truthy email \<and> \<not> truthy wallet
         then Inr (json 400 [(''ok'', Some (JBool False)),
                             (''error'', Some (JStr ''email or wallet required''))], [])
         else if \<not> truthy_str (SUPABASE_URL en) \<or> \<not> truthy_str (SUPABASE_SERVICE_ROLE en)
         then Inr (json 500 [(''ok'', Some (JBool False)),
                             (''error'', Some (JStr ''Supabase env not set''))], [])
         else
         raise_after [] (createClient_result sb (SUPABASE_URL en) (SUPABASE_SERVICE_ROLE en))
           (\<lambda>client.
         let rpc = rpc_ensure_user email wallet in
         raise_after [rpc] (rpc_result sb email wallet) (\<lambda>(ensureData, ensureErr).
         if truthy ensureErr
         then Inr (json 500 [(''ok'', Some (JBool False)),
                             (''error'', Some (JStr ''ensure_user failed''))], [rpc])
         else
         let user_id = ensureData;
             expires = compute_expiry rt plan now
         in
         raise_after [rpc] (toISOString (Some now)) (\<lambda>started_at.
         raise_after [rpc] (toISOString expires) (\<lambda>expires_at.
         let row = JObj
               [(''user_id'', user_id),
                (''plan'', JStr plan),
                (''amount'', num_or_null amount),
                (''currency'', JStr currency),
                (''tx_hash'', txHash),
                (''provider'', JStr ''helio''),
                (''status'', JStr ''active''),
                (''started_at'', JStr started_at),
                (''expires_at'', JStr expires_at)];
             ins = insert_subscription row
         in
         raise_after [rpc, ins] (insert_result sb row) (\<lambda>(subData, subErr).
         if truthy subErr
         then Inr (json 500 [(''ok'', Some (JBool False)),
                             (''error'', Some (JStr ''insert subscription failed''))], [rpc, ins])
         else
         raise_after [rpc, ins] (get_prop subData ''id'') (\<lambda>sub_id.
         raise_after [rpc, ins] (get_prop subData ''expires_at'') (\<lambda>sub_expires_at.
         Inr (json 200 [(''ok'', Some (JBool True)), (''saved'', Some (JBool True)),
                        (''user_id'', Some user_id), (''subscription_id'', sub_id),
                        (''expires_at'', sub_expires_at)],
              [rpc, ins])))))))))))))))))))))"

definition payment_webhook_supabase ::
  "runtime \<Rightarrow> env \<Rightarrow> supabase \<Rightarrow> int \<Rightarrow> event \<Rightarrow> response \<times> effect list" where
  "payment_webhook_supabase rt en sb now ev = catch500 (payment_webhook_supabase_try rt en sb now ev)"

section \<open>payment-webhook.js, the placeholder variant\<close>

definition payment_webhook_placeholder_try ::
  "runtime \<Rightarrow> env \<Rightarrow> event \<Rightarrow> outcome" where
  "payment_webhook_placeholder_try rt en ev =
    (if httpMethod ev \<noteq> ''POST'' then Inr (plain 405 ''Method Not Allowed'', [])
     else
       let secret = HELIO_WEBHOOK_SECRET en;
           signature = or_str (headers ev ''x-helio-signature'') (headers ev ''X-Helio-Signature'')
       in
       if \<not> truthy_str secret then Inr (plain 500 ''Server misconfigured'', [])
       else if \<not> truthy_str signature \<or> signature \<noteq> secret then Inr (plain 401 ''Unauthorized'', [])
       else
         case JSON_parse rt (body_or_empty_object ev) of
           None \<Rightarrow> Inl (SyntaxError, [])
         | Some payload \<Rightarrow>
         and_then (get_prop payload ''event'') (\<lambda>event_type.
         if event_type \<noteq> Some (JStr ''payment_succeeded'')
         then Inr (json 200 [(''ok'', Some (JBool True)), (''ignored'', Some (JBool True))], [])
         else
         and_then (get_prop payload ''plan'') (\<lambda>plan_v.
         and_then (get_prop payload ''email'') (\<lambda>email_v.
         and_then (get_prop payload ''wallet'') (\<lambda>wallet_v.
         Inr (json 200 [(''ok'', Some (JBool True)), (''received'', Some (JBool True)),
                        (''plan'', Some (or_json plan_v JNull)),
                        (''email'', Some (or_json email_v JNull)),
                        (''wallet'', Some (or_json wallet_v JNull)),
                        (''note'', Some (JStr
                           ''Membership activation will be persisted in the next step.''))],
              []))))))"

definition payment_webhook_placeholder :: "runtime \<Rightarrow> env \<Rightarrow> event \<Rightarrow> response \<times> effect list" where
  "payment_webhook_placeholder rt en ev = catch500 (payment_webhook_placeholder_try rt en ev)"

section \<open>The identity key of the specification\<close>

text \<open>
  The key scheme in the words of the specification: the email when there is one,
  else the lower-cased wallet.
\<close>

definition identity_key :: "runtime \<Rightarrow> string \<Rightarrow> string \<Rightarrow> string" where
  "identity_key rt email wallet =
     (if email = [] then ''wallet:'' @ toLowerCase rt wallet else ''email:'' @ email)"

section \<open>Example requests\<close>

subsection \<open>The string methods on ASCII strings\<close>

text \<open>
  On a string of ASCII characters, which is what the examples use, \<^verbatim>\<open>trim\<close> strips
  tab, line feed, vertical tab, form feed, carriage return and space from both ends,
  and the case maps change the letters A to Z and a to z.
\<close>

definition is_ws :: "char \<Rightarrow> bool" where
  "is_ws c = (c \<in> {CHR 0x09, CHR 0x0A, CHR 0x0B, CHR 0x0C, CHR 0x0D, CHR 0x20})"

definition ascii_trim :: "string \<Rightarrow> string" where
  "ascii_trim s = rev (dropWhile is_ws (rev (dropWhile is_ws s)))"

definition lower_char :: "char \<Rightarrow> char" where
  "lower_char c = (let n = (of_char c :: nat) in if 65 \<le> n \<and> n \<le> 90 then char_of (n + 32) else c)"

definition upper_char :: "char \<Rightarrow> char" where
  "upper_char c = (let n = (of_char c :: nat) in if 97 \<le> n \<and> n \<le> 122 then char_of (n - 32) else c)"

definition ascii_toLowerCase :: "string \<Rightarrow> string" where
  "ascii_toLowerCase s = map lower_char s"

definition ascii_toUpperCase :: "string \<Rightarrow> string" where
  "ascii_toUpperCase s = map upper_char s"

subsection \<open>Runtimes and collaborators\<close>

text \<open>
  A runtime in UTC whose parser answers \<^verbatim>\<open>{}\<close> for the text \<^verbatim>\<open>{}\<close> and the payload \<open>p\<close>
  for every other body, and the same runtime in the zone of New York around
  12 March 2023, when the clocks there went from 02:00 at five hours behind UTC to
  03:00 at four hours behind UTC, at 07:00 UTC.
\<close>

definition example_runtime :: "jvalue \<Rightarrow> runtime" where
  "example_runtime p =
     \<lparr>JSON_parse = (\<lambda>s. if s = ''{}'' then Some (JObj []) else Some p),
      Number_toString = (\<lambda>n. ''0''),
      StringToNumber = (\<lambda>s. None),
      Date_parse = (\<lambda>s. None),
      trim = ascii_trim,
      toLowerCase = ascii_toLowerCase,
      toUpperCase = ascii_toUpperCase,
      zone_offset = (\<lambda>t isUTC. offset_of 0)\<rparr>"

definition new_york_2023 :: "int \<Rightarrow> bool \<Rightarrow> offset" where
  "new_york_2023 t isUTC =
     (if t < (if isUTC then 1678604400000 else 1678590000000)
      then offset_of (- 18000000) else offset_of (- 14400000))"

definition new_york_runtime :: "jvalue \<Rightarrow> runtime" where
  "new_york_runtime p = (example_runtime p)\<lparr>zone_offset := new_york_2023\<rparr>"

text \<open>An environment with and without the secret.\<close>

definition example_env :: env where
  "example_env =
     \<lparr>HELIO_WEBHOOK_SECRET = Some ''s3cret'',
      SUPABASE_URL = Some ''https://db.example'',
      SUPABASE_SERVICE_ROLE = Some ''role''\<rparr>"

definition unset_env :: env where
  "unset_env =
     \<lparr>HELIO_WEBHOOK_SECRET = None,
      SUPABASE_URL = Some ''https://db.example'',
      SUPABASE_SERVICE_ROLE = Some ''role''\<rparr>"

text \<open>Requests that carry the secret under a given header name, and queries.\<close>

definition post_event :: "string \<Rightarrow> string option \<Rightarrow> event" where
  "post_event header_name b =
     \<lparr>httpMethod = ''POST'', headers = [header_name \<mapsto> ''s3cret''], body = b,
      params = Map.empty\<rparr>"

definition get_event :: "string option \<Rightarrow> string option \<Rightarrow> event" where
  "get_event email wallet =
     \<lparr>httpMethod = ''GET'', headers = Map.empty, body = None,
      params = (\<lambda>k. if k = ''email'' then email else if k = ''wallet'' then wallet else None)\<rparr>"

text \<open>Collaborators that accept every call, and a store that rejects every write.\<close>

definition example_blobs :: blobs where
  "example_blobs = \<lparr>getStore_result = Inr (), setJSON_result = (\<lambda>k v. Inr ())\<rparr>"

definition rejecting_blobs :: blobs where
  "rejecting_blobs = \<lparr>getStore_result = Inr (), setJSON_result = (\<lambda>k v. Inl Error)\<rparr>"

definition example_supabase :: supabase where
  "example_supabase =
     \<lparr>createClient_result = (\<lambda>url role. Inr ()),
      rpc_result = (\<lambda>e w. Inr (JStr ''user-1'', JNull)),
      insert_result = (\<lambda>row. Inr (JObj [(''id'', JNum 1)], JNull))\<rparr>"

subsection \<open>Notifications\<close>

text \<open>
  A notification for the monthly plan with an email and a wallet, and the record the
  Blobs variant writes for it when it is received on 2023-01-31 at 12:00 UTC.
\<close>

definition example_payload :: jvalue where
  "example_payload =
     JObj [(''event'', JStr ''payment_succeeded''), (''plan'', JStr ''Monthly''),
           (''email'', JStr '' A@b.C ''), (''wallet'', JStr ''0xAbC''),
           (''currency'', JStr ''usdt'')]"

definition example_member :: jvalue where
  "example_member =
     JObj [(''email'', JStr ''a@b.c''),
           (''wallet'', JStr ''0xAbC''),
           (''plan'', JStr ''monthly''),
           (''amount'', JNull),
           (''currency'', JStr ''usdt''),
           (''txHash'', JNull),
           (''started_at'', JStr ''2023-01-31T12:00:00.000Z''),
           (''expires_at'', JStr ''2023-03-03T12:00:00.000Z''),
           (''provider'', JStr ''helio''),
           (''status'', JStr ''active'')]"

text \<open>
  A notification for the yearly plan with a wallet only, and the record written for
  it when it is received on 2024-02-29 at 12:00 UTC.
\<close>

definition yearly_payload :: jvalue where
  "yearly_payload =
     JObj [(''event'', JStr ''payment_succeeded''), (''plan'', JStr ''yearly''),
           (''wallet'', JStr '' 0xAbC ''), (''amount'', JNum 350)]"

definition yearly_member :: jvalue where
  "yearly_member =
     JObj [(''email'', JNull),
           (''wallet'', JStr ''0xAbC''),
           (''plan'', JStr ''yearly''),
           (''amount'', JNum 350),
           (''currency'', JNull),
           (''txHash'', JNull),
           (''started_at'', JStr ''2024-02-29T12:00:00.000Z''),
           (''expires_at'', JStr ''2025-03-01T12:00:00.000Z''),
           (''provider'', JStr ''helio''),
           (''status'', JStr ''active'')]"

text \<open>
  Notifications that fail: an unsupported plan, no identity, a number as email, and
  a plan that is an object with a property \<^verbatim>\<open>toString\<close>.
\<close>

definition weekly_payload :: jvalue where
  "weekly_payload =
     JObj [(''event'', JStr ''payment_succeeded''), (''plan'', JStr ''weekly''),
           (''email'', JStr ''a@b.c'')]"

definition anonymous_payload :: jvalue where
  "anonymous_payload =
     JObj [(''event'', JStr ''payment_succeeded''), (''plan'', JStr ''yearly''),
           (''email'', JStr '' '')]"

definition numeric_email_payload :: jvalue where
  "numeric_email_payload =
     JObj [(''event'', JStr ''payment_succeeded''), (''plan'', JStr ''weekly''),
           (''email'', JNum 5)]"

definition object_plan_payload :: jvalue where
  "object_plan_payload =
     JObj [(''event'', JStr ''payment_succeeded''),
           (''plan'', JObj [(''toString'', JNum 1)]),
           (''email'', JStr ''a@b.c'')]"

text \<open>A store that holds one record, and a runtime that parses its expiry.\<close>

definition stored_record :: jvalue where
  "stored_record =
     JObj [(''email'', JStr ''a@b.c''), (''plan'', JStr ''monthly''),
           (''expires_at'', JStr ''2023-03-03T12:00:00.000Z'')]"

definition example_store :: store where
  "example_store = [''email:a@b.c'' \<mapsto> stored_record]"

definition parsing_runtime :: runtime where
  "parsing_runtime =
     (example_runtime JNull)
       \<lparr>Date_parse := (\<lambda>s. if s = ''2023-03-03T12:00:00.000Z'' then Some 1677844800000
                             else None)\<rparr>"

section \<open>Reasoning about a handler's outcome\<close>

text \<open>
  \<open>post P m\<close>: the answer of a handler whose \<^verbatim>\<open>try\<close> block computes \<open>m\<close> satisfies
  \<open>P\<close>. The rules follow the structure of the block, one branch at a time.
\<close>

definition post :: "(response \<times> effect list \<Rightarrow> bool) \<Rightarrow> outcome \<Rightarrow> bool" where
  "post P m = P (catch500 m)"

lemma post_Inr: "P r \<Longrightarrow> post P (Inr r)"
  by (simp add: post_def catch500_def)

lemma post_Inl: "P (plain 500 ''Internal Server Error'', es) \<Longrightarrow> post P (Inl (e, es))"
  by (simp add: post_def catch500_def)

lemma post_raise_after:
  "(\<And>e. m = Inl e \<Longrightarrow> P (plain 500 ''Internal Server Error'', es)) \<Longrightarrow>
   (\<And>x. m = Inr x \<Longrightarrow> post P (f x)) \<Longrightarrow> post P (raise_after es m f)"
  by (cases m) (simp_all add: post_def catch500_def raise_after_def)

lemma post_and_then:
  "(\<And>e. m = Inl e \<Longrightarrow> P (plain 500 ''Internal Server Error'', [])) \<Longrightarrow>
   (\<And>x. m = Inr x \<Longrightarrow> post P (f x)) \<Longrightarrow> post P (and_then m f)"
  unfolding and_then_def by (rule post_raise_after)

lemma post_if: "(c \<Longrightarrow> post P a) \<Longrightarrow> (\<not> c \<Longrightarrow> post P b) \<Longrightarrow> post P (if c then a else b)"
  by simp

lemma post_Let: "(\<And>x. x = v \<Longrightarrow> post P (f x)) \<Longrightarrow> post P (Let v f)"
  by simp

lemma post_case_option:
  "(opt = None \<Longrightarrow> post P a) \<Longrightarrow> (\<And>x. opt = Some x \<Longrightarrow> post P (f x)) \<Longrightarrow>
   post P (case opt of None \<Rightarrow> a | Some x \<Rightarrow> f x)"
  by (cases opt) simp_all

lemma post_case_prod:
  "(\<And>a b. v = (a, b) \<Longrightarrow> post P (f a b)) \<Longrightarrow> post P (case v of (a, b) \<Rightarrow> f a b)"
  by (cases v) simp

lemmas post_rules = post_Inr post_Inl post_raise_after post_and_then post_if post_Let
  post_case_option post_case_prod

lemma blobs_post:
  "post P (payment_webhook_blobs_try rt en bl now ev) \<Longrightarrow>
   P (payment_webhook_blobs rt en bl now ev)"
  by (simp add: post_def payment_webhook_blobs_def)

lemma supabase_post:
  "post P (payment_webhook_supabase_try rt en sb now ev) \<Longrightarrow>
   P (payment_webhook_supabase rt en sb now ev)"
  by (simp add: post_def payment_webhook_supabase_def)

lemma placeholder_post:
  "post P (payment_webhook_placeholder_try rt en ev) \<Longrightarrow> P (payment_webhook_placeholder rt en ev)"
  by (simp add: post_def payment_webhook_placeholder_def)

lemma get_membership_post:
  "post P (get_membership_try rt bl st now ev) \<Longrightarrow> P (get_membership rt bl st now ev)"
  by (simp add: post_def get_membership_def)

section \<open>Authentication\<close>

text \<open>
  C4: on a POST request, when the shared secret is not configured (unset or empty),
  every variant of the webhook handler answers with status 500 and calls no
  collaborator, whatever the headers are; the answer is not the 401 of a failed
  authentication.
\<close>

theorem unset_secret_is_server_error:
  assumes "httpMethod ev = ''POST''"
    and "\<not> truthy_str (HELIO_WEBHOOK_SECRET en)"
  shows "payment_webhook_blobs rt en bl now ev = (plain 500 ''Server misconfigured'', []) \<and>
         payment_webhook_supabase rt en sb now ev =
           (json 500 [(''ok'', Some (JBool False)),
                      (''error'', Some (JStr ''Missing HELIO_WEBHOOK_SECRET''))], []) \<and>
         payment_webhook_placeholder rt en ev = (plain 500 ''Server misconfigured'', []) \<and>
         statusCode (fst (payment_webhook_blobs rt en bl now ev)) = 500 \<and>
         statusCode (fst (payment_webhook_supabase rt en sb now ev)) = 500 \<and>
         statusCode (fst (payment_webhook_placeholder rt en ev)) = 500 \<and>
         statusCode (fst (payment_webhook_blobs rt en bl now ev)) \<noteq> 401 \<and>
         statusCode (fst (payment_webhook_supabase rt en sb now ev)) \<noteq> 401 \<and>
         statusCode (fst (payment_webhook_placeholder rt en ev)) \<noteq> 401"
proof -
  have b: "payment_webhook_blobs rt en bl now ev = (plain 500 ''Server misconfigured'', [])"
    using assms by (simp add: payment_webhook_blobs_def payment_webhook_blobs_try_def catch500_def)
  have s: "payment_webhook_supabase rt en sb now ev =
           (json 500 [(''ok'', Some (JBool False)),
                      (''error'', Some (JStr ''Missing HELIO_WEBHOOK_SECRET''))], [])"
    using assms by (simp add: payment_webhook_supabase_def payment_webhook_supabase_try_def catch500_def)
  have p: "payment_webhook_placeholder rt en ev = (plain 500 ''Server misconfigured'', [])"
    using assms
    by (simp add: payment_webhook_placeholder_def payment_webhook_placeholder_try_def catch500_def)
  show ?thesis
    unfolding b s p by (simp add: plain_def json_def)
qed

theorem unset_secret_is_server_error_witness:
  "httpMethod (post_event ''X-Helio-Signature'' None) = ''POST'' \<and>
   \<not> truthy_str (HELIO_WEBHOOK_SECRET unset_env) \<and>
   payment_webhook_blobs (example_runtime JNull) unset_env example_blobs 0
     (post_event ''X-Helio-Signature'' None) = (plain 500 ''Server misconfigured'', []) \<and>
   statusCode (fst (payment_webhook_supabase (example_runtime JNull) unset_env example_supabase 0
     (post_event ''X-Helio-Signature'' None))) = 500"
  using unset_secret_is_server_error
    [where ev = "post_event ''X-Helio-Signature'' None" and en = unset_env
        and rt = "example_runtime JNull" and bl = example_blobs and now = 0
        and sb = example_supabase]
  by (simp add: post_event_def unset_env_def truthy_str_def json_def)

lemma or_str_lookup:
  assumes "s \<noteq> []"
  shows "or_str a b = Some s \<longleftrightarrow> a = Some s \<or> \<not> truthy_str a \<and> b = Some s"
  using assms by (auto simp: or_str_def truthy_str_def)

text \<open>
  C3, as amended: on a POST request with the secret configured, the signature is the
  value of the header named exactly \<^verbatim>\<open>x-helio-signature\<close> or, when that one is absent
  or empty, \<^verbatim>\<open>X-Helio-Signature\<close>. When it equals the secret, neither the Blobs nor
  the Supabase variant answers 401; otherwise both answer 401 and call no collaborator.
  No other casing of the header name is looked up.
\<close>

theorem signature_header_lookup:
  assumes "httpMethod ev = ''POST''"
    and "HELIO_WEBHOOK_SECRET en = Some s" and "s \<noteq> []"
  shows "((headers ev ''x-helio-signature'' = Some s \<or>
           \<not> truthy_str (headers ev ''x-helio-signature'') \<and>
           headers ev ''X-Helio-Signature'' = Some s) \<longrightarrow>
          statusCode (fst (payment_webhook_blobs rt en bl now ev)) \<noteq> 401 \<and>
          statusCode (fst (payment_webhook_supabase rt en sb now ev)) \<noteq> 401) \<and>
         (\<not> (headers ev ''x-helio-signature'' = Some s \<or>
             \<not> truthy_str (headers ev ''x-helio-signature'') \<and>
             headers ev ''X-Helio-Signature'' = Some s) \<longrightarrow>
          payment_webhook_blobs rt en bl now ev = (plain 401 ''Unauthorized'', []) \<and>
          payment_webhook_supabase rt en sb now ev =
            (json 401 [(''ok'', Some (JBool False)), (''error'', Some (JStr ''Unauthorized''))], []))"
proof (intro conjI impI)
  assume "headers ev ''x-helio-signature'' = Some s \<or>
           \<not> truthy_str (headers ev ''x-helio-signature'') \<and>
           headers ev ''X-Helio-Signature'' = Some s"
  then have sig: "or_str (headers ev ''x-helio-signature'') (headers ev ''X-Helio-Signature'') = Some s"
    using assms(3) by (simp add: or_str_lookup)
  show "statusCode (fst (payment_webhook_blobs rt en bl now ev)) \<noteq> 401"
    apply (rule blobs_post)
    unfolding payment_webhook_blobs_try_def
    apply (intro post_rules)
    using assms sig apply (simp_all add: json_def plain_def truthy_str_def)
    done
  show "statusCode (fst (payment_webhook_supabase rt en sb now ev)) \<noteq> 401"
    apply (rule supabase_post)
    unfolding payment_webhook_supabase_try_def
    apply (intro post_rules)
    using assms sig apply (simp_all add: json_def plain_def truthy_str_def)
    done
next
  assume "\<not> (headers ev ''x-helio-signature'' = Some s \<or>
             \<not> truthy_str (headers ev ''x-helio-signature'') \<and>
             headers ev ''X-Helio-Signature'' = Some s)"
  then have sig: "or_str (headers ev ''x-helio-signature'') (headers ev ''X-Helio-Signature'') \<noteq> Some s"
    using assms(3) by (simp add: or_str_lookup)
  show "payment_webhook_blobs rt en bl now ev = (plain 401 ''Unauthorized'', [])"
    using assms sig
    by (simp add: payment_webhook_blobs_def payment_webhook_blobs_try_def truthy_str_def
        catch500_def)
  show "payment_webhook_supabase rt en sb now ev =
            (json 401 [(''ok'', Some (JBool False)), (''error'', Some (JStr ''Unauthorized''))], [])"
    using assms sig
    by (simp add: payment_webhook_supabase_def payment_webhook_supabase_try_def truthy_str_def
        catch500_def)
qed

theorem signature_header_lookup_witness:
  "httpMethod (post_event ''X-Helio-Signature'' None) = ''POST'' \<and>
   HELIO_WEBHOOK_SECRET example_env = Some ''s3cret'' \<and> ''s3cret'' \<noteq> [] \<and>
   \<not> truthy_str (headers (post_event ''X-Helio-Signature'' None) ''x-helio-signature'') \<and>
   headers (post_event ''X-Helio-Signature'' None) ''X-Helio-Signature'' = Some ''s3cret'' \<and>
   statusCode (fst (payment_webhook_blobs (example_runtime JNull) example_env example_blobs 0
     (post_event ''X-Helio-Signature'' None))) \<noteq> 401 \<and>
   \<not> (headers (post_event ''x-helio-sig'' None) ''x-helio-signature'' = Some ''s3cret'' \<or>
      \<not> truthy_str (headers (post_event ''x-helio-sig'' None) ''x-helio-signature'') \<and>
      headers (post_event ''x-helio-sig'' None) ''X-Helio-Signature'' = Some ''s3cret'') \<and>
   payment_webhook_blobs (example_runtime JNull) example_env example_blobs 0 (post_event ''x-helio-sig'' None) =
     (plain 401 ''Unauthorized'', [])"
  using signature_header_lookup
      [where ev = "post_event ''X-Helio-Signature'' None" and en = example_env
          and s = "''s3cret''" and rt = "example_runtime JNull" and bl = example_blobs
          and now = 0 and sb = example_supabase]
    signature_header_lookup
      [where ev = "post_event ''x-helio-sig'' None" and en = example_env
          and s = "''s3cret''" and rt = "example_runtime JNull" and bl = example_blobs
          and now = 0 and sb = example_supabase]
  by (simp add: post_event_def example_env_def truthy_str_def)

text \<open>
  The secret sent under the header name \<^verbatim>\<open>X-HELIO-SIGNATURE\<close> is not found: both
  variants answer 401.
\<close>

theorem header_other_casing_counterexample:
  "httpMethod (post_event ''X-HELIO-SIGNATURE'' None) = ''POST'' \<and>
   headers (post_event ''X-HELIO-SIGNATURE'' None) ''X-HELIO-SIGNATURE'' =
     HELIO_WEBHOOK_SECRET example_env \<and>
   payment_webhook_blobs (example_runtime JNull) example_env example_blobs 0
     (post_event ''X-HELIO-SIGNATURE'' None) = (plain 401 ''Unauthorized'', []) \<and>
   statusCode (fst (payment_webhook_supabase (example_runtime JNull) example_env
     example_supabase 0 (post_event ''X-HELIO-SIGNATURE'' None))) = 401"
  by (simp add: post_event_def example_env_def payment_webhook_blobs_def
      payment_webhook_blobs_try_def payment_webhook_supabase_def
      payment_webhook_supabase_try_def or_str_def truthy_str_def catch500_def json_def)

section \<open>Ignored notifications\<close>

text \<open>
  C10: an authenticated POST request whose body is absent or the empty string is
  parsed as the text \<^verbatim>\<open>{}\<close>; the payload has no \<open>event\<close>, so every variant answers
  200 with \<^verbatim>\<open>{ok: true, ignored: true}\<close> and calls no collaborator.
\<close>

theorem empty_body_is_ignored:
  assumes "httpMethod ev = ''POST''"
    and "HELIO_WEBHOOK_SECRET en = Some s" and "s \<noteq> []"
    and "or_str (headers ev ''x-helio-signature'') (headers ev ''X-Helio-Signature'') = Some s"
    and "body ev = None \<or> body ev = Some []"
    and "JSON_parse rt ''{}'' = Some (JObj [])"
  shows "payment_webhook_blobs rt en bl now ev =
           (json 200 [(''ok'', Some (JBool True)), (''ignored'', Some (JBool True))], []) \<and>
         payment_webhook_supabase rt en sb now ev =
           (json 200 [(''ok'', Some (JBool True)), (''ignored'', Some (JBool True))], []) \<and>
         payment_webhook_placeholder rt en ev =
           (json 200 [(''ok'', Some (JBool True)), (''ignored'', Some (JBool True))], [])"
proof -
  have b: "body_or_empty_object ev = ''{}''"
    using assms(5) by (auto simp: body_or_empty_object_def)
  have 1: "payment_webhook_blobs rt en bl now ev =
           (json 200 [(''ok'', Some (JBool True)), (''ignored'', Some (JBool True))], [])"
    using assms(1-4,6)
    by (simp add: payment_webhook_blobs_def payment_webhook_blobs_try_def truthy_str_def b
        and_then_def raise_after_def catch500_def)
  have 2: "payment_webhook_supabase rt en sb now ev =
           (json 200 [(''ok'', Some (JBool True)), (''ignored'', Some (JBool True))], [])"
    using assms(1-4,6)
    by (simp add: payment_webhook_supabase_def payment_webhook_supabase_try_def truthy_str_def b
        raise_after_def catch500_def)
  have 3: "payment_webhook_placeholder rt en ev =
           (json 200 [(''ok'', Some (JBool True)), (''ignored'', Some (JBool True))], [])"
    using assms(1-4,6)
    by (simp add: payment_webhook_placeholder_def payment_webhook_placeholder_try_def
        truthy_str_def b and_then_def raise_after_def catch500_def)
  show ?thesis
    using 1 2 3 by simp
qed

theorem empty_body_is_ignored_witness:
  "httpMethod (post_event ''x-helio-signature'' (Some [])) = ''POST'' \<and>
   HELIO_WEBHOOK_SECRET example_env = Some ''s3cret'' \<and> ''s3cret'' \<noteq> [] \<and>
   or_str (headers (post_event ''x-helio-signature'' (Some [])) ''x-helio-signature'')
     (headers (post_event ''x-helio-signature'' (Some [])) ''X-Helio-Signature'') = Some ''s3cret'' \<and>
   (body (post_event ''x-helio-signature'' (Some [])) = None \<or>
    body (post_event ''x-helio-signature'' (Some [])) = Some []) \<and>
   JSON_parse (example_runtime JNull) ''{}'' = Some (JObj []) \<and>
   payment_webhook_blobs (example_runtime JNull) example_env example_blobs 0
     (post_event ''x-helio-signature'' (Some [])) =
     (json 200 [(''ok'', Some (JBool True)), (''ignored'', Some (JBool True))], [])"
  using empty_body_is_ignored
      [where ev = "post_event ''x-helio-signature'' (Some [])" and en = example_env
          and s = "''s3cret''" and rt = "example_runtime JNull" and bl = example_blobs
          and now = 0 and sb = example_supabase]
  by (simp add: post_event_def example_env_def example_runtime_def or_str_def truthy_str_def)

section \<open>What the Blobs variant writes\<close>

text \<open>
  Every call of \<^verbatim>\<open>store.setJSON\<close> by the Blobs variant comes from the one path of the
  handler that reaches it: the request is an authenticated POST, the payload has the
  event \<^verbatim>\<open>payment_succeeded\<close>, the normalisation did not throw, the plan and the
  identity are valid, the expiry is a valid date and \<^verbatim>\<open>getStore\<close> returned. The key and
  the record are then as follows, and the call is the only one.
\<close>

lemma blobs_write_inv:
  "(case payment_webhook_blobs rt en bl now ev of (resp, es) \<Rightarrow>
    setJSON k m \<in> set es \<longrightarrow>
    (\<exists>payload plan_v plan_s email_v wallet_v amount_v currency_v txHash_v email wallet e.
      httpMethod ev = ''POST'' \<and>
      truthy_str (HELIO_WEBHOOK_SECRET en) \<and>
      or_str (headers ev ''x-helio-signature'') (headers ev ''X-Helio-Signature'') =
        HELIO_WEBHOOK_SECRET en \<and>
      JSON_parse rt (body_or_empty_object ev) = Some payload \<and>
      get_prop payload ''event'' = Inr (Some (JStr ''payment_succeeded'')) \<and>
      get_prop payload ''plan'' = Inr plan_v \<and>
      to_String rt (or_json plan_v (JStr [])) = Inr plan_s \<and>
      get_prop payload ''email'' = Inr email_v \<and>
      get_prop payload ''wallet'' = Inr wallet_v \<and>
      get_prop payload ''amount'' = Inr amount_v \<and>
      get_prop payload ''currency'' = Inr currency_v \<and>
      get_prop payload ''txHash'' = Inr txHash_v \<and>
      str_method (\<lambda>s. toLowerCase rt (trim rt s)) (or_json email_v (JStr [])) = Inr email \<and>
      str_method (trim rt) (or_json wallet_v (JStr [])) = Inr wallet \<and>
      toLowerCase rt plan_s \<in> {''monthly'', ''yearly''} \<and>
      (email \<noteq> [] \<or> wallet \<noteq> []) \<and>
      compute_expiry rt (toLowerCase rt plan_s) now = Some e \<and>
      getStore_result bl = Inr () \<and>
      k = (if email \<noteq> [] then ''email:'' @ email else ''wallet:'' @ toLowerCase rt wallet) \<and>
      m = JObj
            [(''email'', str_or_null email),
             (''wallet'', str_or_null wallet),
             (''plan'', JStr (toLowerCase rt plan_s)),
             (''amount'', or_json amount_v JNull),
             (''currency'', or_json currency_v JNull),
             (''txHash'', or_json txHash_v JNull),
             (''started_at'', JStr (iso_string now)),
             (''expires_at'', JStr (iso_string e)),
             (''provider'', JStr ''helio''),
             (''status'', JStr ''active'')] \<and>
      es = [setJSON k m]))"
  apply (rule blobs_post)
  unfolding payment_webhook_blobs_try_def
  apply (intro post_rules)
  by (auto simp: toISOString_def split: option.splits)

lemma blobs_write_cases:
  assumes "setJSON k m \<in> set (snd (payment_webhook_blobs rt en bl now ev))"
  obtains payload plan_v plan_s email_v wallet_v amount_v currency_v txHash_v email wallet e
  where "httpMethod ev = ''POST''"
    and "truthy_str (HELIO_WEBHOOK_SECRET en)"
    and "or_str (headers ev ''x-helio-signature'') (headers ev ''X-Helio-Signature'') =
          HELIO_WEBHOOK_SECRET en"
    and "JSON_parse rt (body_or_empty_object ev) = Some payload"
    and "get_prop payload ''event'' = Inr (Some (JStr ''payment_succeeded''))"
    and "get_prop payload ''plan'' = Inr plan_v"
    and "to_String rt (or_json plan_v (JStr [])) = Inr plan_s"
    and "get_prop payload ''email'' = Inr email_v"
    and "get_prop payload ''wallet'' = Inr wallet_v"
    and "get_prop payload ''amount'' = Inr amount_v"
    and "get_prop payload ''currency'' = Inr currency_v"
    and "get_prop payload ''txHash'' = Inr txHash_v"
    and "str_method (\<lambda>s. toLowerCase rt (trim rt s)) (or_json email_v (JStr [])) = Inr email"
    and "str_method (trim rt) (or_json wallet_v (JStr [])) = Inr wallet"
    and "toLowerCase rt plan_s \<in> {''monthly'', ''yearly''}"
    and "email \<noteq> [] \<or> wallet \<noteq> []"
    and "compute_expiry rt (toLowerCase rt plan_s) now = Some e"
    and "getStore_result bl = Inr ()"
    and "k = (if email \<noteq> [] then ''email:'' @ email else ''wallet:'' @ toLowerCase rt wallet)"
    and "m = JObj
            [(''email'', str_or_null email),
             (''wallet'', str_or_null wallet),
             (''plan'', JStr (toLowerCase rt plan_s)),
             (''amount'', or_json amount_v JNull),
             (''currency'', or_json currency_v JNull),
             (''txHash'', or_json txHash_v JNull),
             (''started_at'', JStr (iso_string now)),
             (''expires_at'', JStr (iso_string e)),
             (''provider'', JStr ''helio''),
             (''status'', JStr ''active'')]"
    and "snd (payment_webhook_blobs rt en bl now ev) = [setJSON k m]"
proof -
  obtain resp es where r: "payment_webhook_blobs rt en bl now ev = (resp, es)"
    by (cases "payment_webhook_blobs rt en bl now ev")
  with assms have "setJSON k m \<in> set es"
    by simp
  with blobs_write_inv [where rt = rt and en = en and bl = bl and now = now and ev = ev
      and k = k and m = m] r
  show thesis
    by (auto intro: that)
qed

section \<open>The membership query\<close>

text \<open>
  A query that names an identity derives the key of that identity and calls
  \<^verbatim>\<open>store.getJSON\<close> with it. The call throws, and the answer is the bare 500 of the
  \<^verbatim>\<open>catch\<close>, whatever the store holds.
\<close>

lemma get_membership_throws:
  assumes "httpMethod q = ''GET''"
    and "email = toLowerCase rt (trim rt (case params q ''email'' of None \<Rightarrow> [] | Some s \<Rightarrow> s))"
    and "wallet = trim rt (case params q ''wallet'' of None \<Rightarrow> [] | Some s \<Rightarrow> s)"
    and "email \<noteq> [] \<or> wallet \<noteq> []"
    and "getStore_result bl = Inr ()"
  shows "get_membership rt bl st now q =
    (plain 500 ''Internal Server Error'',
     [getJSON (if email \<noteq> [] then ''email:'' @ email else ''wallet:'' @ toLowerCase rt wallet)])"
  using assms
  by (auto simp: get_membership_def get_membership_try_def catch500_def and_then_def
      raise_after_def store_getJSON_def Let_def)

lemma get_membership_call_inv:
  "getJSON k \<in> set (snd (get_membership rt bl st now q)) \<longrightarrow>
   k = identity_key rt
         (toLowerCase rt (trim rt (case params q ''email'' of None \<Rightarrow> [] | Some s \<Rightarrow> s)))
         (trim rt (case params q ''wallet'' of None \<Rightarrow> [] | Some s \<Rightarrow> s))"
  apply (rule get_membership_post)
  unfolding get_membership_try_def
  apply (intro post_rules)
  apply (auto simp: identity_key_def)
  done

section \<open>The identity key\<close>

text \<open>
  C7: the key of every write of the webhook handler is \<open>identity_key\<close> of the trimmed,
  lower-cased email and the trimmed wallet of the payload, and the key of every read
  of the membership query is \<open>identity_key\<close> of the trimmed, lower-cased email and the
  trimmed wallet of the query. With an email present the key is the email key, whatever
  the wallet is; without one it is the key of the lower-cased wallet.
\<close>

theorem identity_key_scheme:
  "(setJSON k m \<in> set (snd (payment_webhook_blobs rt en bl now ev)) \<longrightarrow>
      (\<exists>payload email_v wallet_v e w.
         JSON_parse rt (body_or_empty_object ev) = Some payload \<and>
         get_prop payload ''email'' = Inr email_v \<and> or_json email_v (JStr []) = JStr e \<and>
         get_prop payload ''wallet'' = Inr wallet_v \<and> or_json wallet_v (JStr []) = JStr w \<and>
         k = identity_key rt (toLowerCase rt (trim rt e)) (trim rt w))) \<and>
   (getJSON k' \<in> set (snd (get_membership rt' bl' st now' q)) \<longrightarrow>
      k' = identity_key rt'
             (toLowerCase rt' (trim rt' (case params q ''email'' of None \<Rightarrow> [] | Some s \<Rightarrow> s)))
             (trim rt' (case params q ''wallet'' of None \<Rightarrow> [] | Some s \<Rightarrow> s))) \<and>
   (email \<noteq> [] \<longrightarrow> identity_key rt email wallet = ''email:'' @ email) \<and>
   (email = [] \<longrightarrow> identity_key rt email wallet = ''wallet:'' @ toLowerCase rt wallet)"
proof (intro conjI impI)
  assume "setJSON k m \<in> set (snd (payment_webhook_blobs rt en bl now ev))"
  then obtain payload email_v wallet_v email wallet
    where p: "JSON_parse rt (body_or_empty_object ev) = Some payload"
      and ev: "get_prop payload ''email'' = Inr email_v"
      and wv: "get_prop payload ''wallet'' = Inr wallet_v"
      and e: "str_method (\<lambda>s. toLowerCase rt (trim rt s)) (or_json email_v (JStr [])) = Inr email"
      and w: "str_method (trim rt) (or_json wallet_v (JStr [])) = Inr wallet"
      and k: "k = (if email \<noteq> [] then ''email:'' @ email else ''wallet:'' @ toLowerCase rt wallet)"
    by (rule blobs_write_cases)
  from e obtain e0 where e0: "or_json email_v (JStr []) = JStr e0" "email = toLowerCase rt (trim rt e0)"
    by (cases "or_json email_v (JStr [])") auto
  from w obtain w0 where w0: "or_json wallet_v (JStr []) = JStr w0" "wallet = trim rt w0"
    by (cases "or_json wallet_v (JStr [])") auto
  show "\<exists>payload email_v wallet_v e w.
         JSON_parse rt (body_or_empty_object ev) = Some payload \<and>
         get_prop payload ''email'' = Inr email_v \<and> or_json email_v (JStr []) = JStr e \<and>
         get_prop payload ''wallet'' = Inr wallet_v \<and> or_json wallet_v (JStr []) = JStr w \<and>
         k = identity_key rt (toLowerCase rt (trim rt e)) (trim rt w)"
    using p ev wv e0 w0 k by (auto simp: identity_key_def)
next
  assume "getJSON k' \<in> set (snd (get_membership rt' bl' st now' q))"
  then show "k' = identity_key rt'
             (toLowerCase rt' (trim rt' (case params q ''email'' of None \<Rightarrow> [] | Some s \<Rightarrow> s)))
             (trim rt' (case params q ''wallet'' of None \<Rightarrow> [] | Some s \<Rightarrow> s))"
    using get_membership_call_inv by blast
qed (simp_all add: identity_key_def)

section \<open>Evaluating dates and the example notifications\<close>

lemma digit_char_simps:
  "digit_char 0 = CHR ''0''" "digit_char 1 = CHR ''1''" "digit_char 2 = CHR ''2''"
  "digit_char 3 = CHR ''3''" "digit_char 4 = CHR ''4''" "digit_char 5 = CHR ''5''"
  "digit_char 6 = CHR ''6''" "digit_char 7 = CHR ''7''" "digit_char 8 = CHR ''8''"
  "digit_char 9 = CHR ''9''" "digit_char (Suc 0) = CHR ''1''"
  by code_simp+

lemma pad_simps:
  "pad 2 n = [digit_char (nat n div 10 mod 10), digit_char (nat n mod 10)]"
  "pad 3 n = [digit_char (nat n div 100 mod 10), digit_char (nat n div 10 mod 10),
              digit_char (nat n mod 10)]"
  "pad 4 n = [digit_char (nat n div 1000 mod 10), digit_char (nat n div 100 mod 10),
              digit_char (nat n div 10 mod 10), digit_char (nat n mod 10)]"
  by (simp_all add: pad_def upt_rec)

lemma year_2023: "YearFromDay 19388 = 2023" "YearFromDay 19419 = 2023"
  "YearFromDay 19403 = 2023" "YearFromDay 19431 = 2023"
  by (simp_all add: YearFromDay_def year_search.simps DayFromYear_def)

lemma year_2024: "YearFromDay 19782 = 2024"
  by (simp add: YearFromDay_def year_search.simps DayFromYear_def)

lemma year_2025: "YearFromDay 20148 = 2025"
  by (simp add: YearFromDay_def year_search.simps DayFromYear_def)

lemmas fields_defs = YearFromTime_def Day_def msPerDay_def TimeWithinDay_def
  MonthFromTime_def DateFromTime_def DayWithinYear_def InLeapYear_def DaysInYear_def
  DayFromYear_def Let_def

lemma fields_jan31:
  "YearFromTime 1675166400000 = 2023" "MonthFromTime 1675166400000 = 0"
  "DateFromTime 1675166400000 = 31" "TimeWithinDay 1675166400000 = 43200000"
  by (simp_all add: fields_defs year_2023)

lemma fields_mar3:
  "YearFromTime 1677844800000 = 2023" "MonthFromTime 1677844800000 = 2"
  "DateFromTime 1677844800000 = 3" "TimeWithinDay 1677844800000 = 43200000"
  by (simp_all add: fields_defs year_2023)

lemma fields_feb29:
  "YearFromTime 1709208000000 = 2024" "MonthFromTime 1709208000000 = 1"
  "DateFromTime 1709208000000 = 29" "TimeWithinDay 1709208000000 = 43200000"
  by (simp_all add: fields_defs year_2024)

lemma fields_mar1:
  "YearFromTime 1740830400000 = 2025" "MonthFromTime 1740830400000 = 2"
  "DateFromTime 1740830400000 = 1" "TimeWithinDay 1740830400000 = 43200000"
  by (simp_all add: fields_defs year_2025)

lemma fields_feb15:
  "YearFromTime 1676462400000 = 2023" "MonthFromTime 1676462400000 = 1"
  "DateFromTime 1676462400000 = 15" "TimeWithinDay 1676462400000 = 43200000"
  by (simp_all add: fields_defs year_2023)

lemma fields_feb15_local:
  "YearFromTime 1676444400000 = 2023" "MonthFromTime 1676444400000 = 1"
  "DateFromTime 1676444400000 = 15" "TimeWithinDay 1676444400000 = 25200000"
  by (simp_all add: fields_defs year_2023)

lemma fields_mar15:
  "YearFromTime 1678878000000 = 2023" "MonthFromTime 1678878000000 = 2"
  "DateFromTime 1678878000000 = 15" "TimeWithinDay 1678878000000 = 39600000"
  by (simp_all add: fields_defs year_2023)

lemmas iso_defs = iso_string_def iso_year_def HourFromTime_def MinFromTime_def
  SecFromTime_def msFromTime_def pad_simps digit_char_simps

lemma iso_jan31: "iso_string 1675166400000 = ''2023-01-31T12:00:00.000Z''"
  by (simp add: iso_defs fields_jan31)

lemma iso_mar3: "iso_string 1677844800000 = ''2023-03-03T12:00:00.000Z''"
  by (simp add: iso_defs fields_mar3)

lemma iso_feb29: "iso_string 1709208000000 = ''2024-02-29T12:00:00.000Z''"
  by (simp add: iso_defs fields_feb29)

lemma iso_mar1: "iso_string 1740830400000 = ''2025-03-01T12:00:00.000Z''"
  by (simp add: iso_defs fields_mar1)

lemma iso_feb15: "iso_string 1676462400000 = ''2023-02-15T12:00:00.000Z''"
  by (simp add: iso_defs fields_feb15)

lemma iso_mar15: "iso_string 1678878000000 = ''2023-03-15T11:00:00.000Z''"
  by (simp add: iso_defs fields_mar15)

text \<open>The offsets of the two example zones.\<close>

lemma example_LocalTZA: "LocalTZA (example_runtime p) t isUTC = 0"
  by (simp add: LocalTZA_def example_runtime_def offset_of_inverse)

lemma new_york_LocalTZA:
  "LocalTZA (new_york_runtime p) t isUTC =
     (if t < (if isUTC then 1678604400000 else 1678590000000) then - 18000000 else - 14400000)"
  by (simp add: LocalTZA_def new_york_runtime_def new_york_2023_def offset_of_inverse)

lemmas expiry_defs = compute_expiry_def setMonth_def getMonth_def setFullYear_def
  getFullYear_def LocalTime_def UTC_def MakeDate_def MakeDay_def TimeClip_def month_start_def
  DaysInYear_def DayFromYear_def msPerDay_def

lemma jan31_next_month:
  "compute_expiry (example_runtime p) ''monthly'' 1675166400000 = Some 1677844800000"
  by (simp add: expiry_defs example_LocalTZA fields_jan31)

lemma feb29_next_year:
  "compute_expiry (example_runtime p) ''yearly'' 1709208000000 = Some 1740830400000"
  by (simp add: expiry_defs example_LocalTZA fields_feb29)

lemma feb15_next_month_new_york:
  "compute_expiry (new_york_runtime p) ''monthly'' 1676462400000 = Some 1678878000000"
  by (simp add: expiry_defs new_york_LocalTZA fields_feb15_local)

text \<open>The string methods on the strings of the examples.\<close>

lemma example_strings:
  "ascii_trim '' A@b.C '' = ''A@b.C''"
  "ascii_trim ''a@b.c'' = ''a@b.c''"
  "ascii_trim '' '' = []"
  "ascii_trim [] = []"
  "ascii_trim ''0xAbC'' = ''0xAbC''"
  "ascii_trim '' 0xAbC '' = ''0xAbC''"
  "ascii_trim '' 0XABC'' = ''0XABC''"
  "ascii_trim ''0xabc'' = ''0xabc''"
  "ascii_toLowerCase ''0xabc'' = ''0xabc''"
  "ascii_toLowerCase ''A@b.C'' = ''a@b.c''"
  "ascii_toLowerCase ''a@b.c'' = ''a@b.c''"
  "ascii_toLowerCase [] = []"
  "ascii_toLowerCase ''0xAbC'' = ''0xabc''"
  "ascii_toLowerCase ''0XABC'' = ''0xabc''"
  "ascii_toLowerCase ''Monthly'' = ''monthly''"
  "ascii_toLowerCase ''yearly'' = ''yearly''"
  "ascii_toLowerCase ''weekly'' = ''weekly''"
  "ascii_toUpperCase ''usdt'' = ''USDT''"
  "ascii_toUpperCase ''USDT'' = ''USDT''"
  by code_simp+

lemma example_runtime_simps:
  "trim (example_runtime p) = ascii_trim"
  "toLowerCase (example_runtime p) = ascii_toLowerCase"
  "toUpperCase (example_runtime p) = ascii_toUpperCase"
  "trim (new_york_runtime p) = ascii_trim"
  "toLowerCase (new_york_runtime p) = ascii_toLowerCase"
  "toUpperCase (new_york_runtime p) = ascii_toUpperCase"
  by (simp_all add: example_runtime_def new_york_runtime_def)

text \<open>
  The path of the Blobs variant from a valid request to the write: the record is
  handed to \<^verbatim>\<open>store.setJSON\<close>, and the answer is 200 when the store accepts it and the
  bare 500 when it rejects it.
\<close>

lemma blobs_success:
  assumes "httpMethod ev = ''POST''"
    and "HELIO_WEBHOOK_SECRET en = Some s" and "s \<noteq> []"
    and "or_str (headers ev ''x-helio-signature'') (headers ev ''X-Helio-Signature'') = Some s"
    and "JSON_parse rt (body_or_empty_object ev) = Some (JObj kvs)"
    and "map_of kvs ''event'' = Some (JStr ''payment_succeeded'')"
    and "or_json (map_of kvs ''email'') (JStr []) = JStr e"
    and "or_json (map_of kvs ''wallet'') (JStr []) = JStr w"
    and "to_String rt (or_json (map_of kvs ''plan'') (JStr [])) = Inr ps"
    and "toLowerCase rt ps = plan"
    and "plan = ''monthly'' \<or> plan = ''yearly''"
    and "toLowerCase rt (trim rt e) \<noteq> [] \<or> trim rt w \<noteq> []"
    and "compute_expiry rt plan now = Some t"
    and "getStore_result bl = Inr ()"
  shows "payment_webhook_blobs rt en bl now ev =
    (let email = toLowerCase rt (trim rt e);
         wallet = trim rt w;
         key = (if email \<noteq> [] then ''email:'' @ email else ''wallet:'' @ toLowerCase rt wallet);
         member = JObj
           [(''email'', str_or_null email),
            (''wallet'', str_or_null wallet),
            (''plan'', JStr plan),
            (''amount'', or_json (map_of kvs ''amount'') JNull),
            (''currency'', or_json (map_of kvs ''currency'') JNull),
            (''txHash'', or_json (map_of kvs ''txHash'') JNull),
            (''started_at'', JStr (iso_string now)),
            (''expires_at'', JStr (iso_string t)),
            (''provider'', JStr ''helio''),
            (''status'', JStr ''active'')]
     in (case setJSON_result bl key member of
           Inl err \<Rightarrow> plain 500 ''Internal Server Error''
         | Inr written \<Rightarrow>
             json 200 [(''ok'', Some (JBool True)), (''saved'', Some (JBool True)),
                       (''key'', Some (JStr key)), (''expires_at'', Some (JStr (iso_string t)))],
         [setJSON key member]))"
  unfolding payment_webhook_blobs_def payment_webhook_blobs_try_def
  using assms
  by (simp add: catch500_def and_then_def raise_after_def truthy_str_def toISOString_def Let_def
      split: sum.splits)

lemma example_request:
  "httpMethod (post_event ''x-helio-signature'' (Some ''payload'')) = ''POST''"
  "HELIO_WEBHOOK_SECRET example_env = Some ''s3cret''"
  "''s3cret'' \<noteq> []"
  "or_str (headers (post_event ''x-helio-signature'' (Some ''payload'')) ''x-helio-signature'')
     (headers (post_event ''x-helio-signature'' (Some ''payload'')) ''X-Helio-Signature'') =
   Some ''s3cret''"
  "JSON_parse (example_runtime p)
     (body_or_empty_object (post_event ''x-helio-signature'' (Some ''payload''))) = Some p"
  "JSON_parse (new_york_runtime p)
     (body_or_empty_object (post_event ''x-helio-signature'' (Some ''payload''))) = Some p"
  by (simp_all add: post_event_def example_env_def example_runtime_def new_york_runtime_def
      or_str_def truthy_str_def body_or_empty_object_def)

lemma example_notification_outcome:
  "payment_webhook_blobs (example_runtime example_payload) example_env example_blobs
     1675166400000 (post_event ''x-helio-signature'' (Some ''payload'')) =
   (json 200 [(''ok'', Some (JBool True)), (''saved'', Some (JBool True)),
              (''key'', Some (JStr ''email:a@b.c'')),
              (''expires_at'', Some (JStr ''2023-03-03T12:00:00.000Z''))],
    [setJSON ''email:a@b.c'' example_member])"
proof -
  let ?kvs = "[(''event'', JStr ''payment_succeeded''), (''plan'', JStr ''Monthly''),
           (''email'', JStr '' A@b.C ''), (''wallet'', JStr ''0xAbC''),
           (''currency'', JStr ''usdt'')]"
  let ?rt = "example_runtime example_payload"
  have h: "JSON_parse ?rt (body_or_empty_object (post_event ''x-helio-signature'' (Some ''payload'')))
      = Some (JObj ?kvs)"
    "map_of ?kvs ''event'' = Some (JStr ''payment_succeeded'')"
    "or_json (map_of ?kvs ''email'') (JStr []) = JStr '' A@b.C ''"
    "or_json (map_of ?kvs ''wallet'') (JStr []) = JStr ''0xAbC''"
    "to_String ?rt (or_json (map_of ?kvs ''plan'') (JStr [])) = Inr ''Monthly''"
    "toLowerCase ?rt ''Monthly'' = ''monthly''"
    "''monthly'' = ''monthly'' \<or> ''monthly'' = ''yearly''"
    "toLowerCase ?rt (trim ?rt '' A@b.C '') \<noteq> [] \<or> trim ?rt ''0xAbC'' \<noteq> []"
    by (simp_all add: example_request example_payload_def or_json_def example_runtime_simps
        example_strings)
  show ?thesis
    using blobs_success [OF example_request(1-4) h jan31_next_month, of example_blobs]
    by (simp add: example_blobs_def example_runtime_simps example_strings iso_jan31 iso_mar3
        or_json_def str_or_null_def example_member_def Let_def)
qed

lemma yearly_notification_outcome:
  "payment_webhook_blobs (example_runtime yearly_payload) example_env example_blobs
     1709208000000 (post_event ''x-helio-signature'' (Some ''payload'')) =
   (json 200 [(''ok'', Some (JBool True)), (''saved'', Some (JBool True)),
              (''key'', Some (JStr ''wallet:0xabc'')),
              (''expires_at'', Some (JStr ''2025-03-01T12:00:00.000Z''))],
    [setJSON ''wallet:0xabc'' yearly_member])"
proof -
  let ?kvs = "[(''event'', JStr ''payment_succeeded''), (''plan'', JStr ''yearly''),
           (''wallet'', JStr '' 0xAbC ''), (''amount'', JNum 350)]"
  let ?rt = "example_runtime yearly_payload"
  have h: "JSON_parse ?rt (body_or_empty_object (post_event ''x-helio-signature'' (Some ''payload'')))
      = Some (JObj ?kvs)"
    "map_of ?kvs ''event'' = Some (JStr ''payment_succeeded'')"
    "or_json (map_of ?kvs ''email'') (JStr []) = JStr []"
    "or_json (map_of ?kvs ''wallet'') (JStr []) = JStr '' 0xAbC ''"
    "to_String ?rt (or_json (map_of ?kvs ''plan'') (JStr [])) = Inr ''yearly''"
    "toLowerCase ?rt ''yearly'' = ''yearly''"
    "''yearly'' = ''monthly'' \<or> ''yearly'' = ''yearly''"
    "toLowerCase ?rt (trim ?rt []) \<noteq> [] \<or> trim ?rt '' 0xAbC '' \<noteq> []"
    by (simp_all add: example_request yearly_payload_def or_json_def example_runtime_simps
        example_strings)
  show ?thesis
    using blobs_success [OF example_request(1-4) h feb29_next_year, of example_blobs]
    by (simp add: example_blobs_def example_runtime_simps example_strings iso_feb29 iso_mar1
        or_json_def str_or_null_def yearly_member_def Let_def)
qed

text \<open>
  In the zone of New York the example notification, received on 2023-02-15 at 12:00
  UTC (07:00 local time, before the clock change), is stored with the expiry
  2023-03-15 at 11:00 UTC (07:00 local time, after the clock change).
\<close>

lemma new_york_notification_outcome:
  "snd (payment_webhook_blobs (new_york_runtime example_payload) example_env example_blobs
     1676462400000 (post_event ''x-helio-signature'' (Some ''payload''))) =
    [setJSON ''email:a@b.c''
       (JObj [(''email'', JStr ''a@b.c''),
              (''wallet'', JStr ''0xAbC''),
              (''plan'', JStr ''monthly''),
              (''amount'', JNull),
              (''currency'', JStr ''usdt''),
              (''txHash'', JNull),
              (''started_at'', JStr ''2023-02-15T12:00:00.000Z''),
              (''expires_at'', JStr ''2023-03-15T11:00:00.000Z''),
              (''provider'', JStr ''helio''),
              (''status'', JStr ''active'')])]"
proof -
  let ?kvs = "[(''event'', JStr ''payment_succeeded''), (''plan'', JStr ''Monthly''),
           (''email'', JStr '' A@b.C ''), (''wallet'', JStr ''0xAbC''),
           (''currency'', JStr ''usdt'')]"
  let ?rt = "new_york_runtime example_payload"
  have h: "JSON_parse ?rt (body_or_empty_object (post_event ''x-helio-signature'' (Some ''payload'')))
      = Some (JObj ?kvs)"
    "map_of ?kvs ''event'' = Some (JStr ''payment_succeeded'')"
    "or_json (map_of ?kvs ''email'') (JStr []) = JStr '' A@b.C ''"
    "or_json (map_of ?kvs ''wallet'') (JStr []) = JStr ''0xAbC''"
    "to_String ?rt (or_json (map_of ?kvs ''plan'') (JStr [])) = Inr ''Monthly''"
    "toLowerCase ?rt ''Monthly'' = ''monthly''"
    "''monthly'' = ''monthly'' \<or> ''monthly'' = ''yearly''"
    "toLowerCase ?rt (trim ?rt '' A@b.C '') \<noteq> [] \<or> trim ?rt ''0xAbC'' \<noteq> []"
    by (simp_all add: example_request example_payload_def or_json_def example_runtime_simps
        example_strings)
  show ?thesis
    using blobs_success [OF example_request(1-4) h feb15_next_month_new_york, of example_blobs]
    by (simp add: example_blobs_def example_runtime_simps example_strings iso_feb15 iso_mar15
        or_json_def str_or_null_def Let_def)
qed

text \<open>When the store rejects the write, the answer is the bare 500, after the call.\<close>

lemma rejected_write_outcome:
  "payment_webhook_blobs (example_runtime example_payload) example_env rejecting_blobs
     1675166400000 (post_event ''x-helio-signature'' (Some ''payload'')) =
   (plain 500 ''Internal Server Error'', [setJSON ''email:a@b.c'' example_member])"
proof -
  let ?kvs = "[(''event'', JStr ''payment_succeeded''), (''plan'', JStr ''Monthly''),
           (''email'', JStr '' A@b.C ''), (''wallet'', JStr ''0xAbC''),
           (''currency'', JStr ''usdt'')]"
  let ?rt = "example_runtime example_payload"
  have h: "JSON_parse ?rt (body_or_empty_object (post_event ''x-helio-signature'' (Some ''payload'')))
      = Some (JObj ?kvs)"
    "map_of ?kvs ''event'' = Some (JStr ''payment_succeeded'')"
    "or_json (map_of ?kvs ''email'') (JStr []) = JStr '' A@b.C ''"
    "or_json (map_of ?kvs ''wallet'') (JStr []) = JStr ''0xAbC''"
    "to_String ?rt (or_json (map_of ?kvs ''plan'') (JStr [])) = Inr ''Monthly''"
    "toLowerCase ?rt ''Monthly'' = ''monthly''"
    "''monthly'' = ''monthly'' \<or> ''monthly'' = ''yearly''"
    "toLowerCase ?rt (trim ?rt '' A@b.C '') \<noteq> [] \<or> trim ?rt ''0xAbC'' \<noteq> []"
    by (simp_all add: example_request example_payload_def or_json_def example_runtime_simps
        example_strings)
  show ?thesis
    using blobs_success [OF example_request(1-4) h jan31_next_month, of rejecting_blobs]
    by (simp add: rejecting_blobs_def example_runtime_simps example_strings iso_jan31 iso_mar3
        or_json_def str_or_null_def example_member_def Let_def)
qed

lemma parsing_runtime_simps:
  "trim parsing_runtime = ascii_trim"
  "toLowerCase parsing_runtime = ascii_toLowerCase"
  by (simp_all add: parsing_runtime_def example_runtime_def)

theorem identity_key_scheme_witness:
  "setJSON ''email:a@b.c'' example_member \<in>
     set (snd (payment_webhook_blobs (example_runtime example_payload) example_env example_blobs
       1675166400000 (post_event ''x-helio-signature'' (Some ''payload'')))) \<and>
   (\<exists>e w. or_json (map_of [(''event'', JStr ''payment_succeeded''), (''plan'', JStr ''Monthly''),
           (''email'', JStr '' A@b.C ''), (''wallet'', JStr ''0xAbC''),
           (''currency'', JStr ''usdt'')] ''email'') (JStr []) = JStr e \<and>
          or_json (map_of [(''event'', JStr ''payment_succeeded''), (''plan'', JStr ''Monthly''),
           (''email'', JStr '' A@b.C ''), (''wallet'', JStr ''0xAbC''),
           (''currency'', JStr ''usdt'')] ''wallet'') (JStr []) = JStr w \<and>
          ''email:a@b.c'' =
            identity_key (example_runtime example_payload)
              (toLowerCase (example_runtime example_payload)
                (trim (example_runtime example_payload) e))
              (trim (example_runtime example_payload) w)) \<and>
   getJSON ''email:a@b.c'' \<in>
     set (snd (get_membership parsing_runtime example_blobs example_store 0
       (get_event (Some '' A@b.C '') (Some ''0xabc'')))) \<and>
   ''email:a@b.c'' \<noteq> [] \<and>
   identity_key (example_runtime example_payload) ''a@b.c'' ''0xAbC'' = ''email:a@b.c'' \<and>
   identity_key (example_runtime example_payload) [] ''0xAbC'' = ''wallet:0xabc''"
proof -
  let ?rt = "example_runtime example_payload"
  let ?ev = "post_event ''x-helio-signature'' (Some ''payload'')"
  let ?q = "get_event (Some '' A@b.C '') (Some ''0xabc'')"
  have w: "setJSON ''email:a@b.c'' example_member \<in>
     set (snd (payment_webhook_blobs ?rt example_env example_blobs 1675166400000 ?ev))"
    by (simp add: example_notification_outcome)
  have r: "getJSON ''email:a@b.c'' \<in>
      set (snd (get_membership parsing_runtime example_blobs example_store 0 ?q))"
    using get_membership_throws
      [where q = ?q and email = "''a@b.c''" and wallet = "''0xabc''" and rt = parsing_runtime
        and bl = example_blobs and st = example_store and now = 0]
    by (simp add: get_event_def parsing_runtime_simps example_strings example_blobs_def)
  note t = identity_key_scheme
      [where k = "''email:a@b.c''" and m = example_member and rt = ?rt and en = example_env
        and bl = example_blobs and now = 1675166400000 and ev = ?ev and k' = "''email:a@b.c''"
        and rt' = parsing_runtime and bl' = example_blobs and st = example_store and now' = 0
        and q = ?q and email = "''a@b.c''" and wallet = "''0xAbC''"]
  from t w have "\<exists>payload email_v wallet_v e w.
         JSON_parse ?rt (body_or_empty_object ?ev) = Some payload \<and>
         get_prop payload ''email'' = Inr email_v \<and> or_json email_v (JStr []) = JStr e \<and>
         get_prop payload ''wallet'' = Inr wallet_v \<and> or_json wallet_v (JStr []) = JStr w \<and>
         ''email:a@b.c'' = identity_key ?rt (toLowerCase ?rt (trim ?rt e)) (trim ?rt w)"
    by blast
  then have a: "\<exists>e w. or_json (map_of [(''event'', JStr ''payment_succeeded''), (''plan'', JStr ''Monthly''),
           (''email'', JStr '' A@b.C ''), (''wallet'', JStr ''0xAbC''),
           (''currency'', JStr ''usdt'')] ''email'') (JStr []) = JStr e \<and>
          or_json (map_of [(''event'', JStr ''payment_succeeded''), (''plan'', JStr ''Monthly''),
           (''email'', JStr '' A@b.C ''), (''wallet'', JStr ''0xAbC''),
           (''currency'', JStr ''usdt'')] ''wallet'') (JStr []) = JStr w \<and>
          ''email:a@b.c'' = identity_key ?rt (toLowerCase ?rt (trim ?rt e)) (trim ?rt w)"
    unfolding example_request(5) by (auto simp: example_payload_def)
  from t have b: "identity_key ?rt ''a@b.c'' ''0xAbC'' = ''email:a@b.c''"
    by simp
  have c: "identity_key ?rt [] ''0xAbC'' = ''wallet:0xabc''"
    using identity_key_scheme
      [where k = "''email:a@b.c''" and m = example_member and rt = ?rt and en = example_env
        and bl = example_blobs and now = 1675166400000 and ev = ?ev and k' = "''email:a@b.c''"
        and rt' = parsing_runtime and bl' = example_blobs and st = example_store and now' = 0
        and q = ?q and email = "[]" and wallet = "''0xAbC''"]
    by (simp add: example_runtime_simps example_strings)
  show ?thesis
    using w a r b c by simp
qed

section \<open>The answer of the membership query\<close>

text \<open>
  C5 describes the answer that the header comment of \<^verbatim>\<open>get-membership.js\<close> documents:
  200 with \<open>active\<close> and the record, or a reason. The handler does not give it. It
  calls \<^verbatim>\<open>store.getJSON\<close>, which is not a method of the store, so the call throws and the
  \<^verbatim>\<open>catch\<close> answers the bare 500: for the identity whose record is in the store, before
  its expiry and after it, and for an identity that has no record.
\<close>

theorem membership_query_is_internal_error:
  "example_store ''email:a@b.c'' = Some stored_record \<and>
   get_prop stored_record ''expires_at'' = Inr (Some (JStr ''2023-03-03T12:00:00.000Z'')) \<and>
   Date_parse parsing_runtime ''2023-03-03T12:00:00.000Z'' = Some 1677844800000 \<and>
   get_membership parsing_runtime example_blobs example_store 1675166400000
     (get_event (Some ''a@b.c'') None) =
     (plain 500 ''Internal Server Error'', [getJSON ''email:a@b.c'']) \<and>
   get_membership parsing_runtime example_blobs example_store 1677844800000
     (get_event (Some ''a@b.c'') None) =
     (plain 500 ''Internal Server Error'', [getJSON ''email:a@b.c'']) \<and>
   get_membership parsing_runtime example_blobs Map.empty 1675166400000
     (get_event (Some ''a@b.c'') None) =
     (plain 500 ''Internal Server Error'', [getJSON ''email:a@b.c'']) \<and>
   statusCode (plain 500 ''Internal Server Error'') = 500"
proof -
  have "get_membership parsing_runtime example_blobs st now (get_event (Some ''a@b.c'') None) =
     (plain 500 ''Internal Server Error'', [getJSON ''email:a@b.c''])" for st now
    using get_membership_throws
      [where q = "get_event (Some ''a@b.c'') None" and email = "''a@b.c''" and wallet = "[]"
        and rt = parsing_runtime and bl = example_blobs and st = st and now = now]
    by (simp add: get_event_def parsing_runtime_simps example_strings example_blobs_def)
  then show ?thesis
    by (simp add: example_store_def stored_record_def parsing_runtime_def plain_def)
qed

section \<open>Validation failures\<close>

text \<open>
  C6, as amended: for an authenticated POST request whose payload has the event
  \<^verbatim>\<open>payment_succeeded\<close>, whose \<open>plan\<close> converts to a string without throwing and whose
  \<open>email\<close> and \<open>wallet\<close> are each a string or falsy, a plan other than \<^verbatim>\<open>monthly\<close> and
  \<^verbatim>\<open>yearly\<close> is answered with 400 \<^verbatim>\<open>Invalid plan\<close>, and a valid plan with neither an email
  nor a wallet left after normalisation with 400 \<^verbatim>\<open>Email or wallet required\<close>; in both
  cases the handler makes no call on the store.
\<close>

theorem validation_failure_is_400_without_write:
  assumes "httpMethod ev = ''POST''"
    and "HELIO_WEBHOOK_SECRET en = Some s" and "s \<noteq> []"
    and "or_str (headers ev ''x-helio-signature'') (headers ev ''X-Helio-Signature'') = Some s"
    and "JSON_parse rt (body_or_empty_object ev) = Some (JObj kvs)"
    and "map_of kvs ''event'' = Some (JStr ''payment_succeeded'')"
    and "to_String rt (or_json (map_of kvs ''plan'') (JStr [])) = Inr ps"
    and "toLowerCase rt ps = plan"
    and "or_json (map_of kvs ''email'') (JStr []) = JStr e"
    and "or_json (map_of kvs ''wallet'') (JStr []) = JStr w"
  shows "(plan \<noteq> ''monthly'' \<and> plan \<noteq> ''yearly'' \<longrightarrow>
           payment_webhook_blobs rt en bl now ev =
             (json 400 [(''ok'', Some (JBool False)), (''error'', Some (JStr ''Invalid plan''))],
              [])) \<and>
         ((plan = ''monthly'' \<or> plan = ''yearly'') \<and>
          toLowerCase rt (trim rt e) = [] \<and> trim rt w = [] \<longrightarrow>
           payment_webhook_blobs rt en bl now ev =
             (json 400 [(''ok'', Some (JBool False)),
                        (''error'', Some (JStr ''Email or wallet required''))], []))"
proof (intro conjI impI)
  assume "plan \<noteq> ''monthly'' \<and> plan \<noteq> ''yearly''"
  then show "payment_webhook_blobs rt en bl now ev =
             (json 400 [(''ok'', Some (JBool False)), (''error'', Some (JStr ''Invalid plan''))],
              [])"
    unfolding payment_webhook_blobs_def payment_webhook_blobs_try_def
    using assms
    by (simp add: catch500_def and_then_def raise_after_def truthy_str_def Let_def)
next
  assume "(plan = ''monthly'' \<or> plan = ''yearly'') \<and>
          toLowerCase rt (trim rt e) = [] \<and> trim rt w = []"
  then show "payment_webhook_blobs rt en bl now ev =
             (json 400 [(''ok'', Some (JBool False)),
                        (''error'', Some (JStr ''Email or wallet required''))], [])"
    unfolding payment_webhook_blobs_def payment_webhook_blobs_try_def
    using assms
    by (auto simp add: catch500_def and_then_def raise_after_def truthy_str_def Let_def)
qed

theorem validation_failure_is_400_without_write_witness:
  "httpMethod (post_event ''x-helio-signature'' (Some ''payload'')) = ''POST'' \<and>
   HELIO_WEBHOOK_SECRET example_env = Some ''s3cret'' \<and>
   JSON_parse (example_runtime weekly_payload)
     (body_or_empty_object (post_event ''x-helio-signature'' (Some ''payload''))) =
     Some weekly_payload \<and>
   to_String (example_runtime weekly_payload) (JStr ''weekly'') = Inr ''weekly'' \<and>
   payment_webhook_blobs (example_runtime weekly_payload) example_env example_blobs 0
     (post_event ''x-helio-signature'' (Some ''payload'')) =
     (json 400 [(''ok'', Some (JBool False)), (''error'', Some (JStr ''Invalid plan''))], []) \<and>
   JSON_parse (example_runtime anonymous_payload)
     (body_or_empty_object (post_event ''x-helio-signature'' (Some ''payload''))) =
     Some anonymous_payload \<and>
   payment_webhook_blobs (example_runtime anonymous_payload) example_env example_blobs 0
     (post_event ''x-helio-signature'' (Some ''payload'')) =
     (json 400 [(''ok'', Some (JBool False)),
                (''error'', Some (JStr ''Email or wallet required''))], [])"
proof -
  let ?ev = "post_event ''x-helio-signature'' (Some ''payload'')"
  let ?wk = "[(''event'', JStr ''payment_succeeded''), (''plan'', JStr ''weekly''),
              (''email'', JStr ''a@b.c'')]"
  let ?an = "[(''event'', JStr ''payment_succeeded''), (''plan'', JStr ''yearly''),
              (''email'', JStr '' '')]"
  have hw: "JSON_parse (example_runtime weekly_payload) (body_or_empty_object ?ev) =
      Some (JObj ?wk)"
    "map_of ?wk ''event'' = Some (JStr ''payment_succeeded'')"
    "to_String (example_runtime weekly_payload) (or_json (map_of ?wk ''plan'') (JStr [])) =
      Inr ''weekly''"
    "toLowerCase (example_runtime weekly_payload) ''weekly'' = ''weekly''"
    "or_json (map_of ?wk ''email'') (JStr []) = JStr ''a@b.c''"
    "or_json (map_of ?wk ''wallet'') (JStr []) = JStr []"
    by (simp_all add: example_request weekly_payload_def or_json_def example_runtime_simps
        example_strings)
  have ha: "JSON_parse (example_runtime anonymous_payload) (body_or_empty_object ?ev) =
      Some (JObj ?an)"
    "map_of ?an ''event'' = Some (JStr ''payment_succeeded'')"
    "to_String (example_runtime anonymous_payload) (or_json (map_of ?an ''plan'') (JStr [])) =
      Inr ''yearly''"
    "toLowerCase (example_runtime anonymous_payload) ''yearly'' = ''yearly''"
    "or_json (map_of ?an ''email'') (JStr []) = JStr '' ''"
    "or_json (map_of ?an ''wallet'') (JStr []) = JStr []"
    by (simp_all add: example_request anonymous_payload_def or_json_def example_runtime_simps
        example_strings)
  have 1: "payment_webhook_blobs (example_runtime weekly_payload) example_env example_blobs 0 ?ev =
     (json 400 [(''ok'', Some (JBool False)), (''error'', Some (JStr ''Invalid plan''))], [])"
    using validation_failure_is_400_without_write
      [OF example_request(1-4) hw, of example_blobs 0]
    by simp
  have 2: "payment_webhook_blobs (example_runtime anonymous_payload) example_env example_blobs 0 ?ev =
     (json 400 [(''ok'', Some (JBool False)),
                (''error'', Some (JStr ''Email or wallet required''))], [])"
    using validation_failure_is_400_without_write
      [OF example_request(1-4) ha, of example_blobs 0]
    by (simp add: example_runtime_simps example_strings)
  show ?thesis
    unfolding 1 2 by (simp add: example_request)
qed

text \<open>
  The plan \<^verbatim>\<open>weekly\<close> with the number 5 as email: the call of \<^verbatim>\<open>trim\<close> throws before the
  plan is checked, and the answer is the bare 500 of the \<^verbatim>\<open>catch\<close>, not a 400. A plan
  that is an object with a property \<^verbatim>\<open>toString\<close> is not \<^verbatim>\<open>monthly\<close> or \<^verbatim>\<open>yearly\<close> either, and
  its conversion to a string throws: the same 500.
\<close>

theorem numeric_email_counterexample:
  "get_prop numeric_email_payload ''event'' = Inr (Some (JStr ''payment_succeeded'')) \<and>
   get_prop numeric_email_payload ''plan'' = Inr (Some (JStr ''weekly'')) \<and>
   ''weekly'' \<notin> {''monthly'', ''yearly''} \<and>
   payment_webhook_blobs (example_runtime numeric_email_payload) example_env example_blobs 0
     (post_event ''x-helio-signature'' (Some ''payload'')) =
     (plain 500 ''Internal Server Error'', []) \<and>
   get_prop object_plan_payload ''event'' = Inr (Some (JStr ''payment_succeeded'')) \<and>
   get_prop object_plan_payload ''plan'' = Inr (Some (JObj [(''toString'', JNum 1)])) \<and>
   payment_webhook_blobs (example_runtime object_plan_payload) example_env example_blobs 0
     (post_event ''x-helio-signature'' (Some ''payload'')) =
     (plain 500 ''Internal Server Error'', []) \<and>
   statusCode (plain 500 ''Internal Server Error'') = 500"
proof -
  have 1: "payment_webhook_blobs (example_runtime numeric_email_payload) example_env example_blobs 0
     (post_event ''x-helio-signature'' (Some ''payload'')) =
     (plain 500 ''Internal Server Error'', [])"
    unfolding payment_webhook_blobs_def payment_webhook_blobs_try_def
    by (simp add: example_request catch500_def and_then_def raise_after_def truthy_str_def Let_def
        numeric_email_payload_def or_json_def)
  have 2: "payment_webhook_blobs (example_runtime object_plan_payload) example_env example_blobs 0
     (post_event ''x-helio-signature'' (Some ''payload'')) =
     (plain 500 ''Internal Server Error'', [])"
    unfolding payment_webhook_blobs_def payment_webhook_blobs_try_def
    by (simp add: example_request catch500_def and_then_def raise_after_def truthy_str_def Let_def
        object_plan_payload_def or_json_def)
  show ?thesis
    unfolding 1 2 by (simp add: numeric_email_payload_def object_plan_payload_def plain_def)
qed

section \<open>The calendar arithmetic of Date\<close>

lemma int_mult_div_le:
  fixes a b :: int
  assumes "0 < b"
  shows "b * (a div b) \<le> a"
proof -
  have "b * (a div b) = a - a mod b"
    by (simp add: minus_mod_eq_mult_div)
  then show ?thesis
    using pos_mod_sign [OF assms, of a] by linarith
qed

lemma DaysInYear_le: "DaysInYear y \<le> 366"
  by (simp add: DaysInYear_def)

lemma DayFromYear_add_lower: "DayFromYear a + 365 * int k \<le> DayFromYear (a + int k)"
proof (induction k)
  case 0
  show ?case by simp
next
  case (Suc k)
  have e: "a + int (Suc k) = (a + int k) + 1"
    by simp
  have "DayFromYear (a + int (Suc k)) = DayFromYear (a + int k) + DaysInYear (a + int k)"
    unfolding e by (rule DayFromYear_step)
  then show ?case
    using Suc DaysInYear_ge [of "a + int k"] by simp
qed

lemma DayFromYear_add_upper: "DayFromYear (a + int k) \<le> DayFromYear a + 366 * int k"
proof (induction k)
  case 0
  show ?case by simp
next
  case (Suc k)
  have e: "a + int (Suc k) = (a + int k) + 1"
    by simp
  have "DayFromYear (a + int (Suc k)) = DayFromYear (a + int k) + DaysInYear (a + int k)"
    unfolding e by (rule DayFromYear_step)
  then show ?case
    using Suc DaysInYear_le [of "a + int k"] by simp
qed

lemma DayFromYear_strict_mono:
  assumes "a < b"
  shows "DayFromYear a < DayFromYear b"
proof -
  obtain k where k: "b = a + int k" "0 < k"
    using assms by (metis zless_iff_Suc_zadd zero_less_Suc)
  have "DayFromYear a + 365 * int k \<le> DayFromYear b"
    unfolding k by (rule DayFromYear_add_lower)
  then show ?thesis
    using k(2) by simp
qed

lemma DayFromYear_less_iff: "DayFromYear a < DayFromYear b \<longleftrightarrow> a < b"
proof
  assume l: "DayFromYear a < DayFromYear b"
  show "a < b"
  proof (rule ccontr)
    assume "\<not> a < b"
    then have "b = a \<or> b < a" by auto
    then show False
      using l DayFromYear_strict_mono [of b a] by auto
  qed
qed (rule DayFromYear_strict_mono)

lemma DayFromYear_1970: "DayFromYear 1970 = 0"
  by (simp add: DayFromYear_def)

lemma year_search_bounds:
  "DayFromYear y \<le> d \<Longrightarrow>
   DayFromYear (year_search y d) \<le> d \<and> d < DayFromYear (year_search y d + 1)"
proof (induction y d rule: year_search.induct)
  case (1 y d)
  show ?case
  proof (cases "DayFromYear (y + 1) \<le> d")
    case True
    then show ?thesis
      using "1.IH" by (subst (1 2) year_search.simps) simp
  next
    case False
    then show ?thesis
      using "1.prems" by (subst (1 2) year_search.simps) simp
  qed
qed

lemma year_estimate: "DayFromYear (if 0 \<le> d then 1970 + d div 366 else 1970 + d div 365) \<le> d"
proof (cases "0 \<le> d")
  case True
  define q where "q = d div 366"
  have q: "0 \<le> q" "366 * q \<le> d"
    using True int_mult_div_le [of 366 d] by (simp_all add: q_def pos_imp_zdiv_nonneg_iff)
  have "DayFromYear (1970 + int (nat q)) \<le> DayFromYear 1970 + 366 * int (nat q)"
    by (rule DayFromYear_add_upper)
  then have "DayFromYear (1970 + q) \<le> 366 * q"
    using q(1) by (simp add: DayFromYear_1970)
  then show ?thesis
    using True q(2) by (simp add: q_def [symmetric])
next
  case False
  define q where "q = d div 365"
  have q: "q < 0" "365 * q \<le> d"
    using False int_mult_div_le [of 365 d] by (simp_all add: q_def neg_imp_zdiv_neg_iff)
  have "DayFromYear (1970 + q) + 365 * int (nat (- q)) \<le> DayFromYear (1970 + q + int (nat (- q)))"
    by (rule DayFromYear_add_lower)
  then have "DayFromYear (1970 + q) \<le> 365 * q"
    using q(1) by (simp add: DayFromYear_1970)
  then show ?thesis
    using False q(2) by (simp add: q_def [symmetric])
qed

lemma YearFromDay_bounds:
  "DayFromYear (YearFromDay d) \<le> d" "d < DayFromYear (YearFromDay d + 1)"
  using year_search_bounds [OF year_estimate, of d] by (simp_all add: YearFromDay_def)

lemma YearFromDay_unique:
  assumes "DayFromYear y \<le> d" and "d < DayFromYear (y + 1)"
  shows "YearFromDay d = y"
proof -
  have "DayFromYear (YearFromDay d) < DayFromYear (y + 1)"
    using YearFromDay_bounds(1) [of d] assms(2) by linarith
  then have 1: "YearFromDay d < y + 1"
    by (simp only: DayFromYear_less_iff)
  have "DayFromYear y < DayFromYear (YearFromDay d + 1)"
    using YearFromDay_bounds(2) [of d] assms(1) by linarith
  then have 2: "y < YearFromDay d + 1"
    by (simp only: DayFromYear_less_iff)
  from 1 2 show ?thesis by simp
qed

lemma month_cases:
  fixes m :: int
  assumes "0 \<le> m" and "m \<le> 11"
  shows "m = 0 \<or> m = 1 \<or> m = 2 \<or> m = 3 \<or> m = 4 \<or> m = 5 \<or> m = 6 \<or> m = 7 \<or> m = 8 \<or>
         m = 9 \<or> m = 10 \<or> m = 11"
  using assms by arith

lemma DaysInYear_cases: "DaysInYear y = 365 \<or> DaysInYear y = 366"
  by (simp add: DaysInYear_def)

lemma MakeDay_in_year:
  assumes "0 \<le> m" and "m \<le> 11"
  shows "MakeDay y m dt =
    DayFromYear y + month_start (if DaysInYear y = 366 then 1 else 0) m + dt - 1"
proof -
  have "m div 12 = 0" "m mod 12 = m"
    using assms by (simp_all add: div_pos_pos_trivial mod_pos_pos_trivial)
  then show ?thesis
    by (simp add: MakeDay_def)
qed

lemma MakeDay_month_12: "MakeDay y 12 dt = DayFromYear (y + 1) + dt - 1"
  by (simp add: MakeDay_def month_start_def)

lemma month_start_next:
  assumes "0 \<le> m" and "m \<le> 10"
  shows "month_start (if DaysInYear y = 366 then 1 else 0) (m + 1) =
         month_start (if DaysInYear y = 366 then 1 else 0) m + DaysInMonth y m"
proof -
  have "m = 0 \<or> m = 1 \<or> m = 2 \<or> m = 3 \<or> m = 4 \<or> m = 5 \<or> m = 6 \<or> m = 7 \<or> m = 8 \<or>
        m = 9 \<or> m = 10"
    using assms by arith
  then show ?thesis
    by (elim disjE) (simp_all add: month_start_def DaysInMonth_def)
qed

lemma month_start_december:
  "month_start (if DaysInYear y = 366 then 1 else 0) 11 + DaysInMonth y 11 = DaysInYear y"
  using DaysInYear_cases [of y] by (auto simp: month_start_def DaysInMonth_def)

lemma month_start_bounds:
  assumes "0 \<le> m" and "m \<le> 11"
  shows "0 \<le> month_start (if DaysInYear y = 366 then 1 else 0) m"
    and "month_start (if DaysInYear y = 366 then 1 else 0) m + DaysInMonth y m \<le> DaysInYear y"
  using month_cases [OF assms] DaysInYear_cases [of y]
  by (auto simp: month_start_def DaysInMonth_def)

lemma DaysInMonth_bounds: "28 \<le> DaysInMonth y m" "DaysInMonth y m \<le> 31"
  by (simp_all add: DaysInMonth_def)

text \<open>From the date to the day and back.\<close>

lemma fields_of_MakeDay:
  assumes m: "0 \<le> m" "m \<le> 11"
    and dt: "1 \<le> dt" "dt \<le> DaysInMonth y m"
    and day: "Day t = MakeDay y m dt"
  shows "YearFromTime t = y" and "MonthFromTime t = m" and "DateFromTime t = dt"
proof -
  define l :: int where "l = (if DaysInYear y = 366 then 1 else 0)"
  have d: "Day t = DayFromYear y + month_start l m + dt - 1"
    using day MakeDay_in_year [OF m] by (simp add: l_def)
  have b: "0 \<le> month_start l m" "month_start l m + DaysInMonth y m \<le> DaysInYear y"
    using month_start_bounds [OF m, of y] by (simp_all add: l_def)
  have "DayFromYear y \<le> Day t" "Day t < DayFromYear (y + 1)"
    using d b dt DayFromYear_step [of y] by linarith+
  then show y: "YearFromTime t = y"
    unfolding YearFromTime_def by (rule YearFromDay_unique)
  have w: "DayWithinYear t = month_start l m + dt - 1"
    using d by (simp add: DayWithinYear_def y)
  have i: "InLeapYear t = l"
    by (simp add: InLeapYear_def y l_def)
  have l01: "l = 0 \<or> l = 1"
    by (simp add: l_def)
  have dim: "DaysInMonth y 1 = 28 + l"
    by (simp add: DaysInMonth_def l_def)
  show mo: "MonthFromTime t = m"
    using month_cases [OF m] dt l01 dim
    unfolding MonthFromTime_def w i Let_def
    by (elim disjE) (simp_all add: month_start_def DaysInMonth_def)
  show "DateFromTime t = dt"
    using month_cases [OF m] l01
    unfolding DateFromTime_def w i mo Let_def
    by (elim disjE) (simp_all add: month_start_def)
qed

lemma DayWithinYear_bounds: "0 \<le> DayWithinYear t" "DayWithinYear t < DaysInYear (YearFromTime t)"
  using YearFromDay_bounds [of "Day t"] DayFromYear_step [of "YearFromTime t"]
  by (simp_all add: DayWithinYear_def YearFromTime_def)

lemma MonthFromTime_bounds: "0 \<le> MonthFromTime t" "MonthFromTime t \<le> 11"
  by (simp_all add: MonthFromTime_def Let_def)

lemma MakeDay_of_fields:
  "Day t = MakeDay (YearFromTime t) (MonthFromTime t) (DateFromTime t)"
  "1 \<le> DateFromTime t"
  "DateFromTime t \<le> DaysInMonth (YearFromTime t) (MonthFromTime t)"
proof -
  define l :: int where "l = (if DaysInYear (YearFromTime t) = 366 then 1 else 0)"
  define w where "w = DayWithinYear t"
  have i: "InLeapYear t = l"
    by (simp add: InLeapYear_def l_def)
  have wb: "0 \<le> w" "w < 365 + l"
    using DayWithinYear_bounds [of t] DaysInYear_cases [of "YearFromTime t"]
    by (auto simp: w_def l_def)
  have l01: "l = 0 \<or> l = 1"
    by (simp add: l_def)
  have dim: "DaysInMonth (YearFromTime t) 1 = 28 + l"
    by (simp add: DaysInMonth_def l_def)
  have s: "month_start l (MonthFromTime t) + DateFromTime t - 1 = w"
    using l01 wb
    unfolding MonthFromTime_def DateFromTime_def i Let_def w_def [symmetric]
    by (simp add: month_start_def)
  have "Day t = DayFromYear (YearFromTime t) + w"
    by (simp add: w_def DayWithinYear_def)
  then show "Day t = MakeDay (YearFromTime t) (MonthFromTime t) (DateFromTime t)"
    using s MakeDay_in_year [OF MonthFromTime_bounds, of "YearFromTime t" t "DateFromTime t"]
    by (simp add: l_def)
  show "1 \<le> DateFromTime t"
    using l01 wb
    unfolding MonthFromTime_def DateFromTime_def i Let_def w_def [symmetric]
    by auto
  show "DateFromTime t \<le> DaysInMonth (YearFromTime t) (MonthFromTime t)"
    using l01 wb dim
    unfolding MonthFromTime_def DateFromTime_def i Let_def w_def [symmetric]
    by (auto simp: DaysInMonth_def)
qed

lemma msPerDay_pos: "0 < msPerDay"
  by (simp add: msPerDay_def)

lemma TimeWithinDay_bounds: "0 \<le> TimeWithinDay t" "TimeWithinDay t < msPerDay"
  using msPerDay_pos by (simp_all add: TimeWithinDay_def)

lemma MakeDate_Day: "MakeDate (Day t) (TimeWithinDay t) = t"
  by (simp add: MakeDate_def Day_def TimeWithinDay_def)

lemma Day_MakeDate:
  assumes "0 \<le> time" and "time < msPerDay"
  shows "Day (MakeDate day time) = day" and "TimeWithinDay (MakeDate day time) = time"
proof -
  have "(day * msPerDay + time) div msPerDay = day + time div msPerDay"
    using msPerDay_pos by simp
  then show "Day (MakeDate day time) = day"
    using assms by (simp add: Day_def MakeDate_def div_pos_pos_trivial)
  have "(day * msPerDay + time) mod msPerDay = time mod msPerDay"
    by simp
  then show "TimeWithinDay (MakeDate day time) = time"
    using assms by (simp add: TimeWithinDay_def MakeDate_def mod_pos_pos_trivial)
qed

lemma ymd_roll_over:
  assumes m: "0 \<le> m" "m \<le> 11"
    and dt: "1 \<le> dt" "dt \<le> 31"
    and day: "Day t = MakeDay y m dt"
  shows "ymd t = roll_over (y, m, dt)"
proof (cases "dt \<le> DaysInMonth y m")
  case True
  then show ?thesis
    using fields_of_MakeDay [OF m dt(1) True day] by (simp add: ymd_def roll_over_def)
next
  case False
  then have short: "DaysInMonth y m \<le> 30"
    using dt(2) by linarith
  then have m10: "m \<le> 10" "m \<noteq> 11"
    using m by (auto simp: DaysInMonth_def split: if_splits)
  have m': "0 \<le> m + 1" "m + 1 \<le> 11"
    using m m10 by simp_all
  have "MakeDay y m dt = MakeDay y (m + 1) (dt - DaysInMonth y m)"
    using MakeDay_in_year [OF m, of y dt] MakeDay_in_year [OF m', of y "dt - DaysInMonth y m"]
      month_start_next [OF m(1) m10(1), of y]
    by simp
  then have day': "Day t = MakeDay y (m + 1) (dt - DaysInMonth y m)"
    using day by simp
  have dt': "1 \<le> dt - DaysInMonth y m" "dt - DaysInMonth y m \<le> DaysInMonth y (m + 1)"
    using False dt(2) DaysInMonth_bounds [of y m] DaysInMonth_bounds [of y "m + 1"]
    by linarith+
  show ?thesis
    using fields_of_MakeDay [OF m' dt' day'] False m10
    by (simp add: ymd_def roll_over_def)
qed

lemma DateFromTime_le_31: "DateFromTime t \<le> 31"
  using MakeDay_of_fields(3) [of t] DaysInMonth_bounds(2) [of "YearFromTime t" "MonthFromTime t"]
  by linarith

lemma MakeDay_next_month:
  assumes "0 \<le> m" and "m \<le> 11"
  shows "MakeDay y (m + 1) dt = MakeDay (if m = 11 then y + 1 else y) (if m = 11 then 0 else m + 1) dt"
    and "MakeDay y (m + 1) dt = MakeDay y m dt + DaysInMonth y m"
proof -
  show "MakeDay y (m + 1) dt = MakeDay (if m = 11 then y + 1 else y) (if m = 11 then 0 else m + 1) dt"
    using MakeDay_month_12 [of y dt] MakeDay_in_year [of 0 "y + 1" dt]
    by (auto simp: month_start_def)
  show "MakeDay y (m + 1) dt = MakeDay y m dt + DaysInMonth y m"
  proof (cases "m = 11")
    case True
    then show ?thesis
      using MakeDay_month_12 [of y dt] MakeDay_in_year [of 11 y dt]
        month_start_december [of y] DayFromYear_step [of y]
      by simp
  next
    case False
    then have m10: "m \<le> 10" "0 \<le> m + 1" "m + 1 \<le> 11"
      using assms by simp_all
    show ?thesis
      using MakeDay_in_year [OF assms, of y dt] MakeDay_in_year [OF m10(2,3), of y dt]
        month_start_next [OF assms(1) m10(1), of y]
      by simp
  qed
qed

text \<open>
  One month and one year later in local time: the local date with the month or the
  year advanced by one, a day that the month does not have rolled over, at the same
  time of day.
\<close>

lemma next_month_local:
  assumes "n = MakeDate (MakeDay (YearFromTime t) (MonthFromTime t + 1) (DateFromTime t))
                 (TimeWithinDay t)"
  shows "ymd n = plus_one_month (ymd t)"
    and "TimeWithinDay n = TimeWithinDay t"
    and "n = t + msPerDay * DaysInMonth (YearFromTime t) (MonthFromTime t)"
proof -
  define y where "y = YearFromTime t"
  define m where "m = MonthFromTime t"
  define dt where "dt = DateFromTime t"
  have n: "n = MakeDate (MakeDay y (m + 1) dt) (TimeWithinDay t)"
    using assms by (simp add: y_def m_def dt_def)
  have m: "0 \<le> m" "m \<le> 11"
    using MonthFromTime_bounds [of t] by (simp_all add: m_def)
  have dt: "1 \<le> dt" "dt \<le> 31"
    using MakeDay_of_fields(2) [of t] DateFromTime_le_31 [of t] by (simp_all add: dt_def)
  have dn: "Day n = MakeDay y (m + 1) dt" and tn: "TimeWithinDay n = TimeWithinDay t"
    unfolding n using Day_MakeDate [OF TimeWithinDay_bounds] by simp_all
  have m': "0 \<le> (if m = 11 then 0 else m + 1)" "(if m = 11 then 0 else m + 1) \<le> 11"
    using m by simp_all
  have "ymd n = roll_over (if m = 11 then y + 1 else y, if m = 11 then 0 else m + 1, dt)"
    using dn MakeDay_next_month(1) [OF m, of y dt] by (intro ymd_roll_over [OF m' dt]) simp
  then show "ymd n = plus_one_month (ymd t)"
    by (simp add: plus_one_month_def ymd_def y_def m_def dt_def)
  show "TimeWithinDay n = TimeWithinDay t"
    by (rule tn)
  have "Day n = Day t + DaysInMonth y m"
    using dn MakeDay_next_month(2) [OF m, of y dt] MakeDay_of_fields(1) [of t]
    by (simp add: y_def m_def dt_def)
  then have "n = t + msPerDay * DaysInMonth y m"
    using tn MakeDate_Day [of n] MakeDate_Day [of t]
    by (simp add: MakeDate_def algebra_simps)
  then show "n = t + msPerDay * DaysInMonth (YearFromTime t) (MonthFromTime t)"
    by (simp add: y_def m_def)
qed

lemma next_year_local:
  assumes "n = MakeDate (MakeDay (YearFromTime t + 1) (MonthFromTime t) (DateFromTime t))
                 (TimeWithinDay t)"
  shows "ymd n = plus_one_year (ymd t)"
    and "TimeWithinDay n = TimeWithinDay t"
    and "t + msPerDay * 364 \<le> n"
    and "n \<le> t + msPerDay * 367"
proof -
  define y where "y = YearFromTime t"
  define m where "m = MonthFromTime t"
  define dt where "dt = DateFromTime t"
  have n: "n = MakeDate (MakeDay (y + 1) m dt) (TimeWithinDay t)"
    using assms by (simp add: y_def m_def dt_def)
  have m: "0 \<le> m" "m \<le> 11"
    using MonthFromTime_bounds [of t] by (simp_all add: m_def)
  have dt: "1 \<le> dt" "dt \<le> 31"
    using MakeDay_of_fields(2) [of t] DateFromTime_le_31 [of t] by (simp_all add: dt_def)
  have dn: "Day n = MakeDay (y + 1) m dt" and tn: "TimeWithinDay n = TimeWithinDay t"
    unfolding n using Day_MakeDate [OF TimeWithinDay_bounds] by simp_all
  have "ymd n = roll_over (y + 1, m, dt)"
    using dn by (rule ymd_roll_over [OF m dt])
  then show "ymd n = plus_one_year (ymd t)"
    by (simp add: plus_one_year_def ymd_def y_def m_def dt_def)
  show "TimeWithinDay n = TimeWithinDay t"
    by (rule tn)
  have s: "month_start (if DaysInYear y = 366 then 1 else 0) m \<le>
        month_start (if DaysInYear (y + 1) = 366 then 1 else 0) m + 1"
    "month_start (if DaysInYear (y + 1) = 366 then 1 else 0) m \<le>
        month_start (if DaysInYear y = 366 then 1 else 0) m + 1"
    using month_cases [OF m] by (auto simp: month_start_def)
  have d: "Day n - Day t =
      DaysInYear y + month_start (if DaysInYear (y + 1) = 366 then 1 else 0) m -
        month_start (if DaysInYear y = 366 then 1 else 0) m"
    using dn MakeDay_in_year [OF m, of "y + 1" dt] MakeDay_in_year [OF m, of y dt]
      MakeDay_of_fields(1) [of t] DayFromYear_step [of y]
    by (simp add: y_def m_def dt_def)
  have "Day t + 364 \<le> Day n" "Day n \<le> Day t + 367"
    using d s DaysInYear_ge [of y] DaysInYear_le [of y] by linarith+
  then have "msPerDay * (Day t + 364) \<le> msPerDay * Day n"
    "msPerDay * Day n \<le> msPerDay * (Day t + 367)"
    using msPerDay_pos by simp_all
  then show "t + msPerDay * 364 \<le> n" "n \<le> t + msPerDay * 367"
    using tn MakeDate_Day [of n] MakeDate_Day [of t]
    by (simp_all add: MakeDate_def algebra_simps)
qed

text \<open>Local time is less than a day away from UTC.\<close>

lemma LocalTZA_bounds: "- msPerDay < LocalTZA rt t isUTC" "LocalTZA rt t isUTC < msPerDay"
  using ms_of [of "zone_offset rt t isUTC"] by (simp_all add: LocalTZA_def msPerDay_def)

text \<open>What \<^verbatim>\<open>setMonth(getMonth() + 1)\<close> and \<^verbatim>\<open>setFullYear(getFullYear() + 1)\<close> give.\<close>

lemma setMonth_unfold:
  "setMonth rt now (getMonth rt now + 1) =
   TimeClip (UTC rt (MakeDate (MakeDay (YearFromTime (LocalTime rt now))
     (MonthFromTime (LocalTime rt now) + 1) (DateFromTime (LocalTime rt now)))
     (TimeWithinDay (LocalTime rt now))))"
  by (simp add: setMonth_def getMonth_def Let_def)

lemma setFullYear_unfold:
  "setFullYear rt now (getFullYear rt now + 1) =
   TimeClip (UTC rt (MakeDate (MakeDay (YearFromTime (LocalTime rt now) + 1)
     (MonthFromTime (LocalTime rt now)) (DateFromTime (LocalTime rt now)))
     (TimeWithinDay (LocalTime rt now))))"
  by (simp add: setFullYear_def getFullYear_def Let_def)

lemma TimeClip_Some: "TimeClip t = Some e \<Longrightarrow> e = t"
  by (simp add: TimeClip_def split: if_splits)

lemma setMonth_next:
  assumes "setMonth rt now (getMonth rt now + 1) = Some e"
  shows "\<exists>n. e = UTC rt n \<and> ymd n = plus_one_month (ymd (LocalTime rt now)) \<and>
           TimeWithinDay n = TimeWithinDay (LocalTime rt now) \<and>
           n = LocalTime rt now + msPerDay *
             DaysInMonth (YearFromTime (LocalTime rt now)) (MonthFromTime (LocalTime rt now))"
proof -
  define n where "n = MakeDate (MakeDay (YearFromTime (LocalTime rt now))
     (MonthFromTime (LocalTime rt now) + 1) (DateFromTime (LocalTime rt now)))
     (TimeWithinDay (LocalTime rt now))"
  have "e = UTC rt n"
    using assms unfolding setMonth_unfold n_def [symmetric] by (rule TimeClip_Some)
  then show ?thesis
    using next_month_local [OF n_def] by blast
qed

lemma setFullYear_next:
  assumes "setFullYear rt now (getFullYear rt now + 1) = Some e"
  shows "\<exists>n. e = UTC rt n \<and> ymd n = plus_one_year (ymd (LocalTime rt now)) \<and>
           TimeWithinDay n = TimeWithinDay (LocalTime rt now) \<and>
           LocalTime rt now + msPerDay * 364 \<le> n"
proof -
  define n where "n = MakeDate (MakeDay (YearFromTime (LocalTime rt now) + 1)
     (MonthFromTime (LocalTime rt now)) (DateFromTime (LocalTime rt now)))
     (TimeWithinDay (LocalTime rt now))"
  have "e = UTC rt n"
    using assms unfolding setFullYear_unfold n_def [symmetric] by (rule TimeClip_Some)
  then show ?thesis
    using next_year_local(1-3) [OF n_def] by blast
qed

section \<open>The expiry\<close>

lemma compute_expiry_unfold:
  "compute_expiry rt ''monthly'' now = setMonth rt now (getMonth rt now + 1)"
  "compute_expiry rt ''yearly'' now = setFullYear rt now (getFullYear rt now + 1)"
  by (simp_all add: compute_expiry_def)

lemma compute_expiry_cases:
  assumes "compute_expiry rt plan now = Some e" and "plan = ''monthly'' \<or> plan = ''yearly''"
  shows "plan = ''monthly'' \<and> setMonth rt now (getMonth rt now + 1) = Some e \<or>
         plan = ''yearly'' \<and> setFullYear rt now (getFullYear rt now + 1) = Some e"
  using assms by (auto simp: compute_expiry_def)

text \<open>The expiry is later than \<open>now\<close>, by more than 26 days.\<close>

lemma compute_expiry_later:
  assumes "compute_expiry rt plan now = Some e" and "plan = ''monthly'' \<or> plan = ''yearly''"
  shows "now < e"
proof -
  have far: "now < e" if "e = UTC rt n" and "LocalTime rt now + msPerDay * 28 \<le> n" for n
  proof -
    have "n - msPerDay < e"
      using that(1) LocalTZA_bounds(2) [of rt n False] by (simp add: UTC_def)
    moreover have "now - msPerDay < LocalTime rt now"
      using LocalTZA_bounds(1) [of rt now True] by (simp add: LocalTime_def)
    moreover have "msPerDay * 28 = msPerDay + msPerDay + msPerDay * 26" "0 < msPerDay * 26"
      by (simp_all add: msPerDay_def)
    ultimately show ?thesis
      using that(2) by linarith
  qed
  from compute_expiry_cases [OF assms]
  consider "setMonth rt now (getMonth rt now + 1) = Some e"
    | "setFullYear rt now (getFullYear rt now + 1) = Some e"
    by blast
  then show ?thesis
  proof cases
    case 1
    define days where
      "days = DaysInMonth (YearFromTime (LocalTime rt now)) (MonthFromTime (LocalTime rt now))"
    from setMonth_next [OF 1] obtain n
      where n: "e = UTC rt n" "n = LocalTime rt now + msPerDay * days"
      unfolding days_def by blast
    have "28 \<le> days"
      unfolding days_def by (rule DaysInMonth_bounds(1))
    then have "msPerDay * 28 \<le> msPerDay * days"
      using msPerDay_pos by simp
    then show ?thesis
      using n by (intro far [of n]) simp_all
  next
    case 2
    from setFullYear_next [OF 2] obtain n
      where n: "e = UTC rt n" "LocalTime rt now + msPerDay * 364 \<le> n"
      by blast
    have "msPerDay * 28 \<le> msPerDay * 364"
      by (simp add: msPerDay_def)
    then show ?thesis
      using n by (intro far [of n]) simp_all
  qed
qed

text \<open>
  For every \<open>now\<close> that a clock can show the expiry is a valid date: the time values
  of Date reach 8.64e15 ms on both sides of the epoch.
\<close>

lemma compute_expiry_valid:
  assumes "plan = ''monthly'' \<or> plan = ''yearly''" and "\<bar>now\<bar> \<le> 8000000000000000"
  shows "\<exists>e. compute_expiry rt plan now = Some e"
proof -
  have clip: "\<exists>e. TimeClip (UTC rt n) = Some e"
    if "LocalTime rt now \<le> n" and "n \<le> LocalTime rt now + msPerDay * 367" for n
  proof -
    have "n - msPerDay < UTC rt n" "UTC rt n < n + msPerDay"
      using LocalTZA_bounds [of rt n False] by (simp_all add: UTC_def)
    moreover have "now - msPerDay < LocalTime rt now" "LocalTime rt now < now + msPerDay"
      using LocalTZA_bounds [of rt now True] by (simp_all add: LocalTime_def)
    moreover have "msPerDay = 86400000" "msPerDay * 367 = 31708800000"
      by (simp_all add: msPerDay_def)
    ultimately have "\<bar>UTC rt n\<bar> \<le> 8640000000000000"
      using that assms(2) by linarith
    then show ?thesis
      by (simp add: TimeClip_def)
  qed
  from assms(1) show ?thesis
  proof
    assume p: "plan = ''monthly''"
    define days where
      "days = DaysInMonth (YearFromTime (LocalTime rt now)) (MonthFromTime (LocalTime rt now))"
    define n where "n = MakeDate (MakeDay (YearFromTime (LocalTime rt now))
       (MonthFromTime (LocalTime rt now) + 1) (DateFromTime (LocalTime rt now)))
       (TimeWithinDay (LocalTime rt now))"
    have n: "n = LocalTime rt now + msPerDay * days"
      unfolding days_def by (rule next_month_local(3) [OF n_def])
    have "28 \<le> days" "days \<le> 31"
      unfolding days_def by (rule DaysInMonth_bounds)+
    then have "0 \<le> msPerDay * days" "msPerDay * days \<le> msPerDay * 367"
      using msPerDay_pos by simp_all
    then have "\<exists>e. TimeClip (UTC rt n) = Some e"
      using n by (intro clip) simp_all
    then show ?thesis
      unfolding p compute_expiry_unfold setMonth_unfold n_def .
  next
    assume p: "plan = ''yearly''"
    define n where "n = MakeDate (MakeDay (YearFromTime (LocalTime rt now) + 1)
       (MonthFromTime (LocalTime rt now)) (DateFromTime (LocalTime rt now)))
       (TimeWithinDay (LocalTime rt now))"
    have "0 \<le> msPerDay * 364"
      by (simp add: msPerDay_def)
    then have "\<exists>e. TimeClip (UTC rt n) = Some e"
      using next_year_local(3,4) [OF n_def] by (intro clip) simp_all
    then show ?thesis
      unfolding p compute_expiry_unfold setFullYear_unfold n_def .
  qed
qed

text \<open>Every row the Supabase variant inserts carries a valid plan and its two dates.\<close>

lemma supabase_insert_inv:
  "(case payment_webhook_supabase rt en sb now ev of (resp, es) \<Rightarrow>
     insert_subscription (JObj kvs) \<in> set es \<longrightarrow>
     (\<exists>plan e. (plan = ''monthly'' \<or> plan = ''yearly'') \<and>
        compute_expiry rt plan now = Some e \<and>
        map_of kvs ''plan'' = Some (JStr plan) \<and>
        map_of kvs ''started_at'' = Some (JStr (iso_string now)) \<and>
        map_of kvs ''expires_at'' = Some (JStr (iso_string e))))"
  apply (rule supabase_post)
  unfolding payment_webhook_supabase_try_def
  apply (intro post_rules)
  apply (simp_all add: toISOString_def split: option.splits)
  apply blast+
  done

lemma blobs_write_dates:
  assumes "setJSON k (JObj kvs) \<in> set (snd (payment_webhook_blobs rt en bl now ev))"
  shows "\<exists>plan e. (plan = ''monthly'' \<or> plan = ''yearly'') \<and>
        compute_expiry rt plan now = Some e \<and>
        map_of kvs ''plan'' = Some (JStr plan) \<and>
        map_of kvs ''started_at'' = Some (JStr (iso_string now)) \<and>
        map_of kvs ''expires_at'' = Some (JStr (iso_string e))"
  using assms by (rule blobs_write_cases) auto

lemma supabase_insert_dates:
  assumes "insert_subscription (JObj kvs) \<in> set (snd (payment_webhook_supabase rt en sb now ev))"
  shows "\<exists>plan e. (plan = ''monthly'' \<or> plan = ''yearly'') \<and>
        compute_expiry rt plan now = Some e \<and>
        map_of kvs ''plan'' = Some (JStr plan) \<and>
        map_of kvs ''started_at'' = Some (JStr (iso_string now)) \<and>
        map_of kvs ''expires_at'' = Some (JStr (iso_string e))"
  using assms supabase_insert_inv [where rt = rt and en = en and sb = sb and now = now and ev = ev and kvs = kvs]
  by (cases "payment_webhook_supabase rt en sb now ev") simp

lemma persisted_dates:
  assumes "setJSON k (JObj kvs) \<in> set (snd (payment_webhook_blobs rt en bl now ev)) \<or>
    insert_subscription (JObj kvs) \<in> set (snd (payment_webhook_supabase rt en sb now ev))"
  shows "\<exists>plan e. (plan = ''monthly'' \<or> plan = ''yearly'') \<and>
        compute_expiry rt plan now = Some e \<and>
        map_of kvs ''plan'' = Some (JStr plan) \<and>
        map_of kvs ''started_at'' = Some (JStr (iso_string now)) \<and>
        map_of kvs ''expires_at'' = Some (JStr (iso_string e))"
  using assms
proof
  assume "setJSON k (JObj kvs) \<in> set (snd (payment_webhook_blobs rt en bl now ev))"
  then show ?thesis
    by (rule blobs_write_dates)
next
  assume "insert_subscription (JObj kvs) \<in> set (snd (payment_webhook_supabase rt en sb now ev))"
  then show ?thesis
    by (rule supabase_insert_dates)
qed

text \<open>
  C9: the record that the Blobs variant writes, and the row that the Supabase variant
  inserts, hold as \<open>started_at\<close> the ISO string of \<open>now\<close> and as \<open>expires_at\<close> the ISO
  string of the expiry computed for its plan, a time strictly after \<open>now\<close>, for the
  monthly and for the yearly plan and whatever \<open>now\<close> is.
\<close>

theorem expires_after_started:
  "(setJSON k (JObj kvs) \<in> set (snd (payment_webhook_blobs rt en bl now ev)) \<or>
    insert_subscription (JObj kvs) \<in> set (snd (payment_webhook_supabase rt en sb now ev)) \<longrightarrow>
    (\<exists>plan e. (plan = ''monthly'' \<or> plan = ''yearly'') \<and>
       compute_expiry rt plan now = Some e \<and> now < e \<and>
       map_of kvs ''started_at'' = Some (JStr (iso_string now)) \<and>
       map_of kvs ''expires_at'' = Some (JStr (iso_string e))))"
proof
  assume a: "setJSON k (JObj kvs) \<in> set (snd (payment_webhook_blobs rt en bl now ev)) \<or>
    insert_subscription (JObj kvs) \<in> set (snd (payment_webhook_supabase rt en sb now ev))"
  from persisted_dates [OF a]
  obtain plan e where p: "plan = ''monthly'' \<or> plan = ''yearly''"
    and c: "compute_expiry rt plan now = Some e"
    and f: "map_of kvs ''started_at'' = Some (JStr (iso_string now))"
      "map_of kvs ''expires_at'' = Some (JStr (iso_string e))"
    by blast
  have "now < e"
    using c p by (rule compute_expiry_later)
  with p c f show "\<exists>plan e. (plan = ''monthly'' \<or> plan = ''yearly'') \<and>
       compute_expiry rt plan now = Some e \<and> now < e \<and>
       map_of kvs ''started_at'' = Some (JStr (iso_string now)) \<and>
       map_of kvs ''expires_at'' = Some (JStr (iso_string e))"
    by blast
qed

theorem expires_after_started_witness:
  "setJSON ''email:a@b.c'' example_member \<in>
     set (snd (payment_webhook_blobs (example_runtime example_payload) example_env example_blobs
       1675166400000 (post_event ''x-helio-signature'' (Some ''payload'')))) \<and>
   (\<exists>plan e. (plan = ''monthly'' \<or> plan = ''yearly'') \<and>
      compute_expiry (example_runtime example_payload) plan 1675166400000 = Some e \<and>
      1675166400000 < e \<and>
      ''2023-01-31T12:00:00.000Z'' = iso_string 1675166400000 \<and>
      ''2023-03-03T12:00:00.000Z'' = iso_string e) \<and>
   setJSON ''wallet:0xabc'' yearly_member \<in>
     set (snd (payment_webhook_blobs (example_runtime yearly_payload) example_env example_blobs
       1709208000000 (post_event ''x-helio-signature'' (Some ''payload'')))) \<and>
   (\<exists>plan e. (plan = ''monthly'' \<or> plan = ''yearly'') \<and>
      compute_expiry (example_runtime yearly_payload) plan 1709208000000 = Some e \<and>
      1709208000000 < e \<and>
      ''2024-02-29T12:00:00.000Z'' = iso_string 1709208000000 \<and>
      ''2025-03-01T12:00:00.000Z'' = iso_string e)"
proof -
  have m: "setJSON ''email:a@b.c'' example_member \<in>
     set (snd (payment_webhook_blobs (example_runtime example_payload) example_env example_blobs
       1675166400000 (post_event ''x-helio-signature'' (Some ''payload''))))"
    by (simp add: example_notification_outcome)
  have y: "setJSON ''wallet:0xabc'' yearly_member \<in>
     set (snd (payment_webhook_blobs (example_runtime yearly_payload) example_env example_blobs
       1709208000000 (post_event ''x-helio-signature'' (Some ''payload''))))"
    by (simp add: yearly_notification_outcome)
  have 1: "\<exists>plan e. (plan = ''monthly'' \<or> plan = ''yearly'') \<and>
      compute_expiry (example_runtime example_payload) plan 1675166400000 = Some e \<and>
      1675166400000 < e \<and>
      ''2023-01-31T12:00:00.000Z'' = iso_string 1675166400000 \<and>
      ''2023-03-03T12:00:00.000Z'' = iso_string e"
    using m expires_after_started
      [where k = "''email:a@b.c''" and kvs = "[(''email'', JStr ''a@b.c''),
           (''wallet'', JStr ''0xAbC''),
           (''plan'', JStr ''monthly''),
           (''amount'', JNull),
           (''currency'', JStr ''usdt''),
           (''txHash'', JNull),
           (''started_at'', JStr ''2023-01-31T12:00:00.000Z''),
           (''expires_at'', JStr ''2023-03-03T12:00:00.000Z''),
           (''provider'', JStr ''helio''),
           (''status'', JStr ''active'')]" and rt = "example_runtime example_payload"
          and en = example_env and bl = example_blobs and now = 1675166400000
          and ev = "post_event ''x-helio-signature'' (Some ''payload'')"]
    by (simp add: example_member_def)
  have 2: "\<exists>plan e. (plan = ''monthly'' \<or> plan = ''yearly'') \<and>
      compute_expiry (example_runtime yearly_payload) plan 1709208000000 = Some e \<and>
      1709208000000 < e \<and>
      ''2024-02-29T12:00:00.000Z'' = iso_string 1709208000000 \<and>
      ''2025-03-01T12:00:00.000Z'' = iso_string e"
    using y expires_after_started
      [where k = "''wallet:0xabc''" and kvs = "[(''email'', JNull),
           (''wallet'', JStr ''0xAbC''),
           (''plan'', JStr ''yearly''),
           (''amount'', JNum 350),
           (''currency'', JNull),
           (''txHash'', JNull),
           (''started_at'', JStr ''2024-02-29T12:00:00.000Z''),
           (''expires_at'', JStr ''2025-03-01T12:00:00.000Z''),
           (''provider'', JStr ''helio''),
           (''status'', JStr ''active'')]" and rt = "example_runtime yearly_payload"
          and en = example_env and bl = example_blobs and now = 1709208000000
          and ev = "post_event ''x-helio-signature'' (Some ''payload'')"]
    by (simp add: yearly_member_def)
  show ?thesis
    using m 1 y 2 by blast
qed

text \<open>
  C1, as amended: the record of the Blobs variant and the row of the Supabase variant
  hold the ISO strings of \<open>now\<close> and of an expiry that is the time, as the runtime
  converts it from local time to UTC, at which the local clock shows the time of day
  of \<open>now\<close> on the local date of \<open>now\<close> one month later for the monthly plan and one year
  later for the yearly plan. A day that the target month does not have rolls over into
  the month after it: one month after January 31 is March 3 (March 2 in a leap year),
  not the last day of February, and one year after February 29 is March 1. For both
  plans and every \<open>now\<close> within 8e15 ms of the epoch the expiry is a valid date.
\<close>

theorem expiry_is_calendar_addition_with_rollover:
  "(setJSON k (JObj kvs) \<in> set (snd (payment_webhook_blobs rt en bl now ev)) \<or>
    insert_subscription (JObj kvs) \<in> set (snd (payment_webhook_supabase rt en sb now ev)) \<longrightarrow>
    (\<exists>e n. map_of kvs ''started_at'' = Some (JStr (iso_string now)) \<and>
       map_of kvs ''expires_at'' = Some (JStr (iso_string e)) \<and>
       e = UTC rt n \<and>
       TimeWithinDay n = TimeWithinDay (LocalTime rt now) \<and>
       (map_of kvs ''plan'' = Some (JStr ''monthly'') \<and>
        ymd n = plus_one_month (ymd (LocalTime rt now)) \<or>
        map_of kvs ''plan'' = Some (JStr ''yearly'') \<and>
        ymd n = plus_one_year (ymd (LocalTime rt now))))) \<and>
   ((plan = ''monthly'' \<or> plan = ''yearly'') \<and> \<bar>now'\<bar> \<le> 8000000000000000 \<longrightarrow>
    (\<exists>e. compute_expiry rt' plan now' = Some e)) \<and>
   plus_one_month (2023, 0, 15) = (2023, 1, 15) \<and>
   plus_one_month (2023, 11, 31) = (2024, 0, 31) \<and>
   plus_one_month (2023, 0, 31) = (2023, 2, 3) \<and>
   plus_one_month (2024, 0, 31) = (2024, 2, 2) \<and>
   plus_one_year (2023, 5, 15) = (2024, 5, 15) \<and>
   plus_one_year (2024, 1, 29) = (2025, 2, 1)"
proof (intro conjI impI)
  assume a: "setJSON k (JObj kvs) \<in> set (snd (payment_webhook_blobs rt en bl now ev)) \<or>
    insert_subscription (JObj kvs) \<in> set (snd (payment_webhook_supabase rt en sb now ev))"
  from persisted_dates [OF a]
  obtain plan e where p: "plan = ''monthly'' \<or> plan = ''yearly''"
    and c: "compute_expiry rt plan now = Some e"
    and f: "map_of kvs ''plan'' = Some (JStr plan)"
      "map_of kvs ''started_at'' = Some (JStr (iso_string now))"
      "map_of kvs ''expires_at'' = Some (JStr (iso_string e))"
    by blast
  from compute_expiry_cases [OF c p]
  have "\<exists>n. e = UTC rt n \<and>
       TimeWithinDay n = TimeWithinDay (LocalTime rt now) \<and>
       (map_of kvs ''plan'' = Some (JStr ''monthly'') \<and>
        ymd n = plus_one_month (ymd (LocalTime rt now)) \<or>
        map_of kvs ''plan'' = Some (JStr ''yearly'') \<and>
        ymd n = plus_one_year (ymd (LocalTime rt now)))"
  proof
    assume a: "plan = ''monthly'' \<and> setMonth rt now (getMonth rt now + 1) = Some e"
    then obtain n where "e = UTC rt n" "ymd n = plus_one_month (ymd (LocalTime rt now))"
      "TimeWithinDay n = TimeWithinDay (LocalTime rt now)"
      using setMonth_next [of rt now e] by blast
    then show ?thesis
      using a f(1) by blast
  next
    assume a: "plan = ''yearly'' \<and> setFullYear rt now (getFullYear rt now + 1) = Some e"
    then obtain n where "e = UTC rt n" "ymd n = plus_one_year (ymd (LocalTime rt now))"
      "TimeWithinDay n = TimeWithinDay (LocalTime rt now)"
      using setFullYear_next [of rt now e] by blast
    then show ?thesis
      using a f(1) by blast
  qed
  then show "\<exists>e n. map_of kvs ''started_at'' = Some (JStr (iso_string now)) \<and>
       map_of kvs ''expires_at'' = Some (JStr (iso_string e)) \<and>
       e = UTC rt n \<and>
       TimeWithinDay n = TimeWithinDay (LocalTime rt now) \<and>
       (map_of kvs ''plan'' = Some (JStr ''monthly'') \<and>
        ymd n = plus_one_month (ymd (LocalTime rt now)) \<or>
        map_of kvs ''plan'' = Some (JStr ''yearly'') \<and>
        ymd n = plus_one_year (ymd (LocalTime rt now)))"
    using f(2,3) by blast
next
  assume "(plan = ''monthly'' \<or> plan = ''yearly'') \<and> \<bar>now'\<bar> \<le> 8000000000000000"
  then show "\<exists>e. compute_expiry rt' plan now' = Some e"
    by (intro compute_expiry_valid) simp_all
qed (simp_all add: plus_one_month_def plus_one_year_def roll_over_def DaysInMonth_def
    DaysInYear_def)

lemma example_local_dates:
  "ymd (LocalTime (example_runtime p) 1675166400000) = (2023, 0, 31)"
  "ymd (LocalTime (example_runtime p) 1709208000000) = (2024, 1, 29)"
  "ymd (LocalTime (new_york_runtime p) 1676462400000) = (2023, 1, 15)"
  "TimeWithinDay (LocalTime (new_york_runtime p) 1676462400000) = 25200000"
  by (simp_all add: ymd_def LocalTime_def example_LocalTZA new_york_LocalTZA fields_jan31
      fields_feb29 fields_feb15_local)

theorem expiry_is_calendar_addition_with_rollover_witness:
  "setJSON ''email:a@b.c'' example_member \<in>
     set (snd (payment_webhook_blobs (example_runtime example_payload) example_env example_blobs
       1675166400000 (post_event ''x-helio-signature'' (Some ''payload'')))) \<and>
   (\<exists>e n. ''2023-03-03T12:00:00.000Z'' = iso_string e \<and>
      e = UTC (example_runtime example_payload) n \<and>
      TimeWithinDay n = TimeWithinDay (LocalTime (example_runtime example_payload) 1675166400000) \<and>
      ymd n = plus_one_month (ymd (LocalTime (example_runtime example_payload) 1675166400000))) \<and>
   ymd (LocalTime (example_runtime example_payload) 1675166400000) = (2023, 0, 31) \<and>
   plus_one_month (2023, 0, 31) = (2023, 2, 3) \<and>
   setJSON ''wallet:0xabc'' yearly_member \<in>
     set (snd (payment_webhook_blobs (example_runtime yearly_payload) example_env example_blobs
       1709208000000 (post_event ''x-helio-signature'' (Some ''payload'')))) \<and>
   (\<exists>e n. ''2025-03-01T12:00:00.000Z'' = iso_string e \<and>
      e = UTC (example_runtime yearly_payload) n \<and>
      TimeWithinDay n = TimeWithinDay (LocalTime (example_runtime yearly_payload) 1709208000000) \<and>
      ymd n = plus_one_year (ymd (LocalTime (example_runtime yearly_payload) 1709208000000))) \<and>
   ymd (LocalTime (example_runtime yearly_payload) 1709208000000) = (2024, 1, 29) \<and>
   plus_one_year (2024, 1, 29) = (2025, 2, 1) \<and>
   snd (payment_webhook_blobs (new_york_runtime example_payload) example_env example_blobs
     1676462400000 (post_event ''x-helio-signature'' (Some ''payload''))) =
    [setJSON ''email:a@b.c''
       (JObj [(''email'', JStr ''a@b.c''),
              (''wallet'', JStr ''0xAbC''),
              (''plan'', JStr ''monthly''),
              (''amount'', JNull),
              (''currency'', JStr ''usdt''),
              (''txHash'', JNull),
              (''started_at'', JStr ''2023-02-15T12:00:00.000Z''),
              (''expires_at'', JStr ''2023-03-15T11:00:00.000Z''),
              (''provider'', JStr ''helio''),
              (''status'', JStr ''active'')])] \<and>
   (\<exists>e n. ''2023-03-15T11:00:00.000Z'' = iso_string e \<and>
      e = UTC (new_york_runtime example_payload) n \<and>
      TimeWithinDay n = TimeWithinDay (LocalTime (new_york_runtime example_payload) 1676462400000) \<and>
      ymd n = plus_one_month (ymd (LocalTime (new_york_runtime example_payload) 1676462400000))) \<and>
   ymd (LocalTime (new_york_runtime example_payload) 1676462400000) = (2023, 1, 15) \<and>
   TimeWithinDay (LocalTime (new_york_runtime example_payload) 1676462400000) = 25200000 \<and>
   plus_one_month (2023, 1, 15) = (2023, 2, 15) \<and>
   (\<exists>e. compute_expiry (example_runtime yearly_payload) ''yearly'' 1709208000000 = Some e)"
proof -
  let ?ev = "post_event ''x-helio-signature'' (Some ''payload'')"
  let ?m = "[(''email'', JStr ''a@b.c''),
           (''wallet'', JStr ''0xAbC''),
           (''plan'', JStr ''monthly''),
           (''amount'', JNull),
           (''currency'', JStr ''usdt''),
           (''txHash'', JNull),
           (''started_at'', JStr ''2023-01-31T12:00:00.000Z''),
           (''expires_at'', JStr ''2023-03-03T12:00:00.000Z''),
           (''provider'', JStr ''helio''),
           (''status'', JStr ''active'')]"
  let ?y = "[(''email'', JNull),
           (''wallet'', JStr ''0xAbC''),
           (''plan'', JStr ''yearly''),
           (''amount'', JNum 350),
           (''currency'', JNull),
           (''txHash'', JNull),
           (''started_at'', JStr ''2024-02-29T12:00:00.000Z''),
           (''expires_at'', JStr ''2025-03-01T12:00:00.000Z''),
           (''provider'', JStr ''helio''),
           (''status'', JStr ''active'')]"
  let ?ny = "[(''email'', JStr ''a@b.c''),
              (''wallet'', JStr ''0xAbC''),
              (''plan'', JStr ''monthly''),
              (''amount'', JNull),
              (''currency'', JStr ''usdt''),
              (''txHash'', JNull),
              (''started_at'', JStr ''2023-02-15T12:00:00.000Z''),
              (''expires_at'', JStr ''2023-03-15T11:00:00.000Z''),
              (''provider'', JStr ''helio''),
              (''status'', JStr ''active'')]"
  have inst: "\<exists>e n. map_of kvs ''expires_at'' = Some (JStr (iso_string e)) \<and>
       e = UTC rt n \<and>
       TimeWithinDay n = TimeWithinDay (LocalTime rt now) \<and>
       (map_of kvs ''plan'' = Some (JStr ''monthly'') \<and>
        ymd n = plus_one_month (ymd (LocalTime rt now)) \<or>
        map_of kvs ''plan'' = Some (JStr ''yearly'') \<and>
        ymd n = plus_one_year (ymd (LocalTime rt now)))"
    if "setJSON k (JObj kvs) \<in> set (snd (payment_webhook_blobs rt example_env example_blobs now ?ev))"
    for k kvs rt now
    using that expiry_is_calendar_addition_with_rollover
      [where k = k and kvs = kvs and rt = rt and en = example_env and bl = example_blobs
        and now = now and ev = ?ev]
    by blast
  have m: "setJSON ''email:a@b.c'' (JObj ?m) \<in>
     set (snd (payment_webhook_blobs (example_runtime example_payload) example_env example_blobs
       1675166400000 ?ev))"
    using example_notification_outcome by (simp add: example_member_def)
  have y: "setJSON ''wallet:0xabc'' (JObj ?y) \<in>
     set (snd (payment_webhook_blobs (example_runtime yearly_payload) example_env example_blobs
       1709208000000 ?ev))"
    using yearly_notification_outcome by (simp add: yearly_member_def)
  have ny: "setJSON ''email:a@b.c'' (JObj ?ny) \<in>
     set (snd (payment_webhook_blobs (new_york_runtime example_payload) example_env example_blobs
       1676462400000 ?ev))"
    using new_york_notification_outcome by simp
  have 1: "\<exists>e n. ''2023-03-03T12:00:00.000Z'' = iso_string e \<and>
      e = UTC (example_runtime example_payload) n \<and>
      TimeWithinDay n = TimeWithinDay (LocalTime (example_runtime example_payload) 1675166400000) \<and>
      ymd n = plus_one_month (ymd (LocalTime (example_runtime example_payload) 1675166400000))"
    using inst [OF m] by simp
  have 2: "\<exists>e n. ''2025-03-01T12:00:00.000Z'' = iso_string e \<and>
      e = UTC (example_runtime yearly_payload) n \<and>
      TimeWithinDay n = TimeWithinDay (LocalTime (example_runtime yearly_payload) 1709208000000) \<and>
      ymd n = plus_one_year (ymd (LocalTime (example_runtime yearly_payload) 1709208000000))"
    using inst [OF y] by simp
  have 3: "\<exists>e n. ''2023-03-15T11:00:00.000Z'' = iso_string e \<and>
      e = UTC (new_york_runtime example_payload) n \<and>
      TimeWithinDay n = TimeWithinDay (LocalTime (new_york_runtime example_payload) 1676462400000) \<and>
      ymd n = plus_one_month (ymd (LocalTime (new_york_runtime example_payload) 1676462400000))"
    using inst [OF ny] by simp
  have 4: "\<exists>e. compute_expiry (example_runtime yearly_payload) ''yearly'' 1709208000000 = Some e"
    using expiry_is_calendar_addition_with_rollover
      [where plan = "''yearly''" and now' = 1709208000000
        and rt' = "example_runtime yearly_payload"]
    by simp
  have 5: "plus_one_month (2023, 0, 31) = (2023, 2, 3)" "plus_one_year (2024, 1, 29) = (2025, 2, 1)"
    "plus_one_month (2023, 1, 15) = (2023, 2, 15)"
    by (simp_all add: plus_one_month_def plus_one_year_def roll_over_def DaysInMonth_def
        DaysInYear_def)
  show ?thesis
    using m y 1 2 3 4 5 new_york_notification_outcome
    unfolding example_member_def yearly_member_def example_local_dates
    by blast
qed

text \<open>
  A monthly notification received on 2023-01-31 at 12:00 UTC is stored with the expiry
  2023-03-03, not with the last day of February.
\<close>

theorem january_31_counterexample:
  "payment_webhook_blobs (example_runtime example_payload) example_env example_blobs
     1675166400000 (post_event ''x-helio-signature'' (Some ''payload'')) =
   (json 200 [(''ok'', Some (JBool True)), (''saved'', Some (JBool True)),
              (''key'', Some (JStr ''email:a@b.c'')),
              (''expires_at'', Some (JStr ''2023-03-03T12:00:00.000Z''))],
    [setJSON ''email:a@b.c''
       (JObj [(''email'', JStr ''a@b.c''),
           (''wallet'', JStr ''0xAbC''),
           (''plan'', JStr ''monthly''),
           (''amount'', JNull),
           (''currency'', JStr ''usdt''),
           (''txHash'', JNull),
           (''started_at'', JStr ''2023-01-31T12:00:00.000Z''),
           (''expires_at'', JStr ''2023-03-03T12:00:00.000Z''),
           (''provider'', JStr ''helio''),
           (''status'', JStr ''active'')])]) \<and>
   ''2023-03-03T12:00:00.000Z'' \<noteq> ''2023-02-28T12:00:00.000Z''"
  using example_notification_outcome by (simp add: example_member_def)

section \<open>Normalisation of the persisted fields\<close>

text \<open>The path of the Supabase variant from a valid request to the insertion of the row.\<close>

lemma supabase_success:
  assumes "httpMethod ev = ''POST''"
    and "HELIO_WEBHOOK_SECRET en = Some s" and "s \<noteq> []"
    and "or_str (headers ev ''x-helio-signature'') (headers ev ''X-Helio-Signature'') = Some s"
    and "JSON_parse rt (body_or_empty_object ev) = Some (JObj kvs)"
    and "map_of kvs ''event'' = Some (JStr ''payment_succeeded'')"
    and "or_json (map_of kvs ''email'') (JStr []) = JStr e"
    and "or_json (map_of kvs ''wallet'') (JStr []) = JStr w"
    and "to_String rt (or_json (map_of kvs ''plan'') (JStr [])) = Inr ps"
    and "toLowerCase rt ps = plan"
    and "plan = ''monthly'' \<or> plan = ''yearly''"
    and "toLowerCase rt (trim rt e) \<noteq> [] \<or> trim rt w \<noteq> []"
    and "compute_expiry rt plan now = Some t"
    and "or_json (map_of kvs ''currency'') (JStr ''USDT'') = JStr c"
    and "to_Number rt (or_json (map_of kvs ''amount'') (JNum 0)) = Inr amount"
    and "truthy_str (SUPABASE_URL en)" and "truthy_str (SUPABASE_SERVICE_ROLE en)"
    and "createClient_result sb (SUPABASE_URL en) (SUPABASE_SERVICE_ROLE en) = Inr ()"
    and "rpc_result sb (str_or_null (toLowerCase rt (trim rt e))) (str_or_null (trim rt w)) =
           Inr (user_id, err)"
    and "\<not> truthy err"
  shows "snd (payment_webhook_supabase rt en sb now ev) =
    [rpc_ensure_user (str_or_null (toLowerCase rt (trim rt e))) (str_or_null (trim rt w)),
     insert_subscription
        (JObj [(''user_id'', user_id),
               (''plan'', JStr plan),
               (''amount'', num_or_null amount),
               (''currency'', JStr (toUpperCase rt c)),
               (''tx_hash'', or_json (map_of kvs ''txHash'') JNull),
               (''provider'', JStr ''helio''),
               (''status'', JStr ''active''),
               (''started_at'', JStr (iso_string now)),
               (''expires_at'', JStr (iso_string t))])]"
proof -
  have id: "truthy (str_or_null (toLowerCase rt (trim rt e))) \<or> truthy (str_or_null (trim rt w))"
    using assms(12) by (auto simp: str_or_null_def)
  show ?thesis
    unfolding payment_webhook_supabase_def payment_webhook_supabase_try_def
    using assms(1-11,13-20) id
    by (simp add: catch500_def raise_after_def truthy_str_def toISOString_def Let_def
        split: prod.splits sum.splits)
qed

text \<open>
  C2, as amended: for an authenticated notification with the event \<^verbatim>\<open>payment_succeeded\<close>
  whose \<open>plan\<close> converts to a string without throwing, whose \<open>email\<close> and \<open>wallet\<close> are
  strings when present, that passes validation and whose expiry is a valid date, both
  variants persist the plan lower-cased, the email trimmed and lower-cased or \<^verbatim>\<open>null\<close>,
  and the wallet trimmed or \<^verbatim>\<open>null\<close>. The Blobs variant, once \<^verbatim>\<open>getStore\<close> has returned,
  stores \<open>amount\<close> and \<open>currency\<close> as they were received, or \<^verbatim>\<open>null\<close> when absent or
  falsy. The Supabase variant, when \<open>currency\<close> is a string or absent, \<^verbatim>\<open>Number(amount)\<close>
  does not throw, the Supabase environment is set, \<^verbatim>\<open>createClient\<close> returns and
  \<^verbatim>\<open>ensure_user\<close> succeeds, stores the currency upper-cased (\<^verbatim>\<open>USDT\<close> when absent) and
  \<^verbatim>\<open>Number(amount)\<close>, which is the amount itself when that is a number and 0 when it is
  absent or falsy.
\<close>

theorem persisted_fields_are_normalized:
  assumes "httpMethod ev = ''POST''"
    and "HELIO_WEBHOOK_SECRET en = Some s" and "s \<noteq> []"
    and "or_str (headers ev ''x-helio-signature'') (headers ev ''X-Helio-Signature'') = Some s"
    and "JSON_parse rt (body_or_empty_object ev) = Some (JObj kvs)"
    and "map_of kvs ''event'' = Some (JStr ''payment_succeeded'')"
    and "or_json (map_of kvs ''email'') (JStr []) = JStr e"
    and "or_json (map_of kvs ''wallet'') (JStr []) = JStr w"
    and "to_String rt (or_json (map_of kvs ''plan'') (JStr [])) = Inr ps"
    and "toLowerCase rt ps = plan"
    and "plan = ''monthly'' \<or> plan = ''yearly''"
    and "toLowerCase rt (trim rt e) \<noteq> [] \<or> trim rt w \<noteq> []"
    and "compute_expiry rt plan now = Some t"
  shows "(getStore_result bl = Inr () \<longrightarrow>
          (\<exists>key. snd (payment_webhook_blobs rt en bl now ev) =
           [setJSON key
              (JObj [(''email'', str_or_null (toLowerCase rt (trim rt e))),
                     (''wallet'', str_or_null (trim rt w)),
                     (''plan'', JStr plan),
                     (''amount'', or_json (map_of kvs ''amount'') JNull),
                     (''currency'', or_json (map_of kvs ''currency'') JNull),
                     (''txHash'', or_json (map_of kvs ''txHash'') JNull),
                     (''started_at'', JStr (iso_string now)),
                     (''expires_at'', JStr (iso_string t)),
                     (''provider'', JStr ''helio''),
                     (''status'', JStr ''active'')])])) \<and>
         (\<forall>c amount user_id err.
            or_json (map_of kvs ''currency'') (JStr ''USDT'') = JStr c \<and>
            to_Number rt (or_json (map_of kvs ''amount'') (JNum 0)) = Inr amount \<and>
            truthy_str (SUPABASE_URL en) \<and> truthy_str (SUPABASE_SERVICE_ROLE en) \<and>
            createClient_result sb (SUPABASE_URL en) (SUPABASE_SERVICE_ROLE en) = Inr () \<and>
            rpc_result sb (str_or_null (toLowerCase rt (trim rt e))) (str_or_null (trim rt w)) =
              Inr (user_id, err) \<and> \<not> truthy err \<longrightarrow>
            snd (payment_webhook_supabase rt en sb now ev) =
              [rpc_ensure_user (str_or_null (toLowerCase rt (trim rt e)))
                 (str_or_null (trim rt w)),
               insert_subscription
                 (JObj [(''user_id'', user_id),
                        (''plan'', JStr plan),
                        (''amount'', num_or_null amount),
                        (''currency'', JStr (toUpperCase rt c)),
                        (''tx_hash'', or_json (map_of kvs ''txHash'') JNull),
                        (''provider'', JStr ''helio''),
                        (''status'', JStr ''active''),
                        (''started_at'', JStr (iso_string now)),
                        (''expires_at'', JStr (iso_string t))])]) \<and>
         (\<not> truthy_opt (map_of kvs ''amount'') \<longrightarrow>
            to_Number rt (or_json (map_of kvs ''amount'') (JNum 0)) = Inr (Some 0)) \<and>
         (\<forall>n. map_of kvs ''amount'' = Some (JNum n) \<longrightarrow>
            to_Number rt (or_json (map_of kvs ''amount'') (JNum 0)) = Inr (Some n)) \<and>
         (map_of kvs ''currency'' = None \<longrightarrow>
            or_json (map_of kvs ''currency'') (JStr ''USDT'') = JStr ''USDT'')"
proof (intro conjI allI impI)
  assume g: "getStore_result bl = Inr ()"
  show "\<exists>key. snd (payment_webhook_blobs rt en bl now ev) =
           [setJSON key
              (JObj [(''email'', str_or_null (toLowerCase rt (trim rt e))),
                     (''wallet'', str_or_null (trim rt w)),
                     (''plan'', JStr plan),
                     (''amount'', or_json (map_of kvs ''amount'') JNull),
                     (''currency'', or_json (map_of kvs ''currency'') JNull),
                     (''txHash'', or_json (map_of kvs ''txHash'') JNull),
                     (''started_at'', JStr (iso_string now)),
                     (''expires_at'', JStr (iso_string t)),
                     (''provider'', JStr ''helio''),
                     (''status'', JStr ''active'')])]"
    unfolding blobs_success [OF assms g] by (simp add: Let_def)
next
  fix c amount user_id err
  assume a: "or_json (map_of kvs ''currency'') (JStr ''USDT'') = JStr c \<and>
            to_Number rt (or_json (map_of kvs ''amount'') (JNum 0)) = Inr amount \<and>
            truthy_str (SUPABASE_URL en) \<and> truthy_str (SUPABASE_SERVICE_ROLE en) \<and>
            createClient_result sb (SUPABASE_URL en) (SUPABASE_SERVICE_ROLE en) = Inr () \<and>
            rpc_result sb (str_or_null (toLowerCase rt (trim rt e))) (str_or_null (trim rt w)) =
              Inr (user_id, err) \<and> \<not> truthy err"
  show "snd (payment_webhook_supabase rt en sb now ev) =
              [rpc_ensure_user (str_or_null (toLowerCase rt (trim rt e)))
                 (str_or_null (trim rt w)),
               insert_subscription
                 (JObj [(''user_id'', user_id),
                        (''plan'', JStr plan),
                        (''amount'', num_or_null amount),
                        (''currency'', JStr (toUpperCase rt c)),
                        (''tx_hash'', or_json (map_of kvs ''txHash'') JNull),
                        (''provider'', JStr ''helio''),
                        (''status'', JStr ''active''),
                        (''started_at'', JStr (iso_string now)),
                        (''expires_at'', JStr (iso_string t))])]"
    using a by (intro supabase_success [OF assms]) blast+
next
  assume "\<not> truthy_opt (map_of kvs ''amount'')"
  then show "to_Number rt (or_json (map_of kvs ''amount'') (JNum 0)) = Inr (Some 0)"
    by (auto simp: truthy_opt_def or_json_def split: option.splits)
next
  fix n
  assume "map_of kvs ''amount'' = Some (JNum n)"
  then show "to_Number rt (or_json (map_of kvs ''amount'') (JNum 0)) = Inr (Some n)"
    by (simp add: or_json_def)
next
  assume "map_of kvs ''currency'' = None"
  then show "or_json (map_of kvs ''currency'') (JStr ''USDT'') = JStr ''USDT''"
    by (simp add: or_json_def)
qed

theorem persisted_fields_are_normalized_witness:
  "httpMethod (post_event ''x-helio-signature'' (Some ''payload'')) = ''POST'' \<and>
   HELIO_WEBHOOK_SECRET example_env = Some ''s3cret'' \<and>
   JSON_parse (example_runtime example_payload)
     (body_or_empty_object (post_event ''x-helio-signature'' (Some ''payload''))) =
     Some example_payload \<and>
   compute_expiry (example_runtime example_payload) ''monthly'' 1675166400000 =
     Some 1677844800000 \<and>
   getStore_result example_blobs = Inr () \<and>
   (\<exists>key. snd (payment_webhook_blobs (example_runtime example_payload) example_env example_blobs
      1675166400000 (post_event ''x-helio-signature'' (Some ''payload''))) =
      [setJSON key
         (JObj [(''email'', JStr ''a@b.c''),
                (''wallet'', JStr ''0xAbC''),
                (''plan'', JStr ''monthly''),
                (''amount'', JNull),
                (''currency'', JStr ''usdt''),
                (''txHash'', JNull),
                (''started_at'', JStr ''2023-01-31T12:00:00.000Z''),
                (''expires_at'', JStr ''2023-03-03T12:00:00.000Z''),
                (''provider'', JStr ''helio''),
                (''status'', JStr ''active'')])]) \<and>
   snd (payment_webhook_supabase (example_runtime example_payload) example_env example_supabase
      1675166400000 (post_event ''x-helio-signature'' (Some ''payload''))) =
     [rpc_ensure_user (JStr ''a@b.c'') (JStr ''0xAbC''),
      insert_subscription
        (JObj [(''user_id'', JStr ''user-1''),
               (''plan'', JStr ''monthly''),
               (''amount'', JNum 0),
               (''currency'', JStr ''USDT''),
               (''tx_hash'', JNull),
               (''provider'', JStr ''helio''),
               (''status'', JStr ''active''),
               (''started_at'', JStr ''2023-01-31T12:00:00.000Z''),
               (''expires_at'', JStr ''2023-03-03T12:00:00.000Z'')])]"
proof -
  let ?rt = "example_runtime example_payload"
  let ?ev = "post_event ''x-helio-signature'' (Some ''payload'')"
  let ?kvs = "[(''event'', JStr ''payment_succeeded''), (''plan'', JStr ''Monthly''),
           (''email'', JStr '' A@b.C ''), (''wallet'', JStr ''0xAbC''),
           (''currency'', JStr ''usdt'')]"
  have h: "JSON_parse ?rt (body_or_empty_object ?ev) = Some (JObj ?kvs)"
    "map_of ?kvs ''event'' = Some (JStr ''payment_succeeded'')"
    "or_json (map_of ?kvs ''email'') (JStr []) = JStr '' A@b.C ''"
    "or_json (map_of ?kvs ''wallet'') (JStr []) = JStr ''0xAbC''"
    "to_String ?rt (or_json (map_of ?kvs ''plan'') (JStr [])) = Inr ''Monthly''"
    "toLowerCase ?rt ''Monthly'' = ''monthly''"
    "''monthly'' = ''monthly'' \<or> ''monthly'' = ''yearly''"
    "toLowerCase ?rt (trim ?rt '' A@b.C '') \<noteq> [] \<or> trim ?rt ''0xAbC'' \<noteq> []"
    by (simp_all add: example_request example_payload_def or_json_def example_runtime_simps
        example_strings)
  note t = persisted_fields_are_normalized [OF example_request(1-4) h jan31_next_month,
      where sb = example_supabase and bl = example_blobs]
  have g: "getStore_result example_blobs = Inr ()"
    by (simp add: example_blobs_def)
  have a: "\<not> truthy_opt (map_of ?kvs ''amount'')"
    by (simp add: truthy_opt_def)
  from t a have 3: "to_Number ?rt (or_json (map_of ?kvs ''amount'') (JNum 0)) = Inr (Some 0)"
    by blast
  have s: "or_json (map_of ?kvs ''currency'') (JStr ''USDT'') = JStr ''usdt'' \<and>
      to_Number ?rt (or_json (map_of ?kvs ''amount'') (JNum 0)) = Inr (Some 0) \<and>
      truthy_str (SUPABASE_URL example_env) \<and> truthy_str (SUPABASE_SERVICE_ROLE example_env) \<and>
      createClient_result example_supabase (SUPABASE_URL example_env)
        (SUPABASE_SERVICE_ROLE example_env) = Inr () \<and>
      rpc_result example_supabase (str_or_null (toLowerCase ?rt (trim ?rt '' A@b.C '')))
        (str_or_null (trim ?rt ''0xAbC'')) = Inr (JStr ''user-1'', JNull) \<and> \<not> truthy JNull"
    using 3 by (simp add: or_json_def example_env_def truthy_str_def example_supabase_def)
  from t s have 2: "snd (payment_webhook_supabase ?rt example_env example_supabase
      1675166400000 ?ev) =
     [rpc_ensure_user (str_or_null (toLowerCase ?rt (trim ?rt '' A@b.C '')))
        (str_or_null (trim ?rt ''0xAbC'')),
      insert_subscription
        (JObj [(''user_id'', JStr ''user-1''),
               (''plan'', JStr ''monthly''),
               (''amount'', num_or_null (Some 0)),
               (''currency'', JStr (toUpperCase ?rt ''usdt'')),
               (''tx_hash'', or_json (map_of ?kvs ''txHash'') JNull),
               (''provider'', JStr ''helio''),
               (''status'', JStr ''active''),
               (''started_at'', JStr (iso_string 1675166400000)),
               (''expires_at'', JStr (iso_string 1677844800000))])]"
    by blast
  from t g have 1: "\<exists>key. snd (payment_webhook_blobs ?rt example_env example_blobs
      1675166400000 ?ev) =
      [setJSON key
         (JObj [(''email'', str_or_null (toLowerCase ?rt (trim ?rt '' A@b.C ''))),
                (''wallet'', str_or_null (trim ?rt ''0xAbC'')),
                (''plan'', JStr ''monthly''),
                (''amount'', or_json (map_of ?kvs ''amount'') JNull),
                (''currency'', or_json (map_of ?kvs ''currency'') JNull),
                (''txHash'', or_json (map_of ?kvs ''txHash'') JNull),
                (''started_at'', JStr (iso_string 1675166400000)),
                (''expires_at'', JStr (iso_string 1677844800000)),
                (''provider'', JStr ''helio''),
                (''status'', JStr ''active'')])]"
    by blast
  show ?thesis
    using 1 g example_request(1,2) h(1) jan31_next_month [of example_payload]
    unfolding 2
    by (simp add: example_runtime_simps example_strings iso_jan31 iso_mar3 str_or_null_def
        or_json_def num_or_null_def example_payload_def)
qed

text \<open>
  The Blobs variant stores the currency \<^verbatim>\<open>usdt\<close> as it came, not upper-cased, and a
  missing amount as \<^verbatim>\<open>null\<close>, not as 0.
\<close>

theorem currency_and_amount_counterexample:
  "snd (payment_webhook_blobs (example_runtime example_payload) example_env example_blobs
     1675166400000 (post_event ''x-helio-signature'' (Some ''payload''))) =
   [setJSON ''email:a@b.c''
      (JObj [(''email'', JStr ''a@b.c''),
             (''wallet'', JStr ''0xAbC''),
             (''plan'', JStr ''monthly''),
             (''amount'', JNull),
             (''currency'', JStr ''usdt''),
             (''txHash'', JNull),
             (''started_at'', JStr ''2023-01-31T12:00:00.000Z''),
             (''expires_at'', JStr ''2023-03-03T12:00:00.000Z''),
             (''provider'', JStr ''helio''),
             (''status'', JStr ''active'')])] \<and>
   get_prop example_payload ''currency'' = Inr (Some (JStr ''usdt'')) \<and>
   get_prop example_payload ''amount'' = Inr None \<and>
   ''usdt'' \<noteq> toUpperCase (example_runtime example_payload) ''usdt'' \<and> JNull \<noteq> JNum 0"
  using example_notification_outcome
  by (simp add: example_member_def example_payload_def example_runtime_simps example_strings)

section \<open>The round trip from the webhook to the query\<close>




end
